theory Spec2Isabelle
  imports Main "HOL-Library.Word"
begin

section \<open>Exceptions, observable events and outcomes\<close>

text \<open>
  The development embeds \<^verbatim>\<open>src/modules/bootable_creator.py\<close> (class
  \<^verbatim>\<open>BootableCreator\<close>) and \<^verbatim>\<open>ISOHandler.calculate_checksum\<close> of
  \<^verbatim>\<open>src/modules/iso_handler.py\<close>.

  A Python exception is a value: its class and the text \<^verbatim>\<open>str(e)\<close>. The classes are
  the ones the source raises or catches by name; \<^verbatim>\<open>EnvironmentError\<close> is Python 3's
  alias of \<^verbatim>\<open>OSError\<close>; \<open>OtherError\<close> carries the name of any other class derived
  from \<^verbatim>\<open>Exception\<close> (one raised by a substituted stage implementation, say), and
  \<open>BaseExceptionOnly\<close> the name of a class derived from \<^verbatim>\<open>BaseException\<close> but not
  from \<^verbatim>\<open>Exception\<close> (\<^verbatim>\<open>KeyboardInterrupt\<close>, \<^verbatim>\<open>SystemExit\<close>,
  \<^verbatim>\<open>GeneratorExit\<close>).
\<close>

datatype exc_class =
    FileNotFoundError
  | EnvironmentError
  | RuntimeError
  | NotImplementedError
  | OtherError string
  | BaseExceptionOnly string

datatype py_error = PyError (exc_cls: exc_class) (exc_str: string)

text \<open>\<^verbatim>\<open>isinstance(e, Exception)\<close>: what a clause \<^verbatim>\<open>except Exception\<close> catches.\<close>

fun derives_from_Exception :: "exc_class \<Rightarrow> bool" where
  "derives_from_Exception (BaseExceptionOnly name) = False"
| "derives_from_Exception cls = True"

text \<open>The four pipeline stages, in the order of the call sites of \<^verbatim>\<open>create_bootable_drive\<close>.\<close>

datatype stage = Prepare | WriteImage | ConfigurePersistence | InstallBootloader

text \<open>
  What a run does to the outside world is recorded as a chronological list of events:
  a call \<^verbatim>\<open>progress_callback(pct, msg)\<close>, the entry into a stage method, a
  \<^verbatim>\<open>subprocess.run\<close>, a \<^verbatim>\<open>subprocess.Popen\<close>, a script file written, a file
  removed. Calls of \<^verbatim>\<open>logger\<close> are not recorded.
\<close>

datatype event =
    Progress int string
  | Call stage
  | Run "string list"
  | Popen "string list"
  | WriteFile string string
  | RemoveFile string

text \<open>
  A computation returns its events together with either the exception it raised
  (\<open>Inl\<close>) or its value (\<open>Inr\<close>).
\<close>

type_synonym 'a res = "(py_error + 'a) \<times> event list"

definition ret :: "'a \<Rightarrow> 'a res" where
  "ret x = (Inr x, [])"

definition raise :: "py_error \<Rightarrow> 'a res" where
  "raise e = (Inl e, [])"

definition bind :: "'a res \<Rightarrow> ('a \<Rightarrow> 'b res) \<Rightarrow> 'b res" where
  "bind m f =
     (case fst m of
        Inl e \<Rightarrow> (Inl e, snd m)
      | Inr x \<Rightarrow> (fst (f x), snd m @ snd (f x)))"

text \<open>
  \<^verbatim>\<open>if progress_callback: progress_callback(pct, msg)\<close>. The callback is an optional
  sink: \<open>cb\<close> says whether one was passed. A sink records the event and returns.
\<close>

definition progress :: "bool \<Rightarrow> int \<Rightarrow> string \<Rightarrow> unit res" where
  "progress cb pct msg = (Inr (), if cb then [Progress pct msg] else [])"

section \<open>The pipeline: \<^verbatim>\<open>create_bootable_drive\<close>\<close>

text \<open>
  The four stage methods are looked up on \<^verbatim>\<open>self\<close>, so the body of
  \<^verbatim>\<open>create_bootable_drive\<close> is first embedded over any four implementations with the
  signatures of \<^verbatim>\<open>_prepare_drive\<close>, \<^verbatim>\<open>_write_iso\<close>, \<^verbatim>\<open>_setup_persistence\<close>
  and \<^verbatim>\<open>_install_bootloader\<close>; the class's own methods are one such record
  (\<open>platform_strategy\<close> below).
\<close>

record strategy =
  prepare_drive_impl :: "string \<Rightarrow> int \<Rightarrow> bool \<Rightarrow> unit res"
  write_iso_impl :: "string \<Rightarrow> string \<Rightarrow> bool \<Rightarrow> unit res"
  setup_persistence_impl :: "string \<Rightarrow> int \<Rightarrow> bool \<Rightarrow> unit res"
  install_bootloader_impl :: "string \<Rightarrow> string \<Rightarrow> bool \<Rightarrow> unit res"

text \<open>A call site \<^verbatim>\<open>self._stage(...)\<close>: the entry is recorded, then the body runs.\<close>

definition invoke :: "stage \<Rightarrow> unit res \<Rightarrow> unit res" where
  "invoke s body = (fst body, Call s # snd body)"

text \<open>The body of the \<^verbatim>\<open>try\<close> block, lines 60 to 89.\<close>

definition run_stages ::
  "strategy \<Rightarrow> string \<Rightarrow> string \<Rightarrow> int \<Rightarrow> bool \<Rightarrow> bool res" where
  "run_stages st device_path iso_path persistence_size cb =
     bind (progress cb 5 ''Preparing drive...'') (\<lambda>_.
     bind (invoke Prepare (prepare_drive_impl st device_path persistence_size cb)) (\<lambda>_.
     bind (progress cb 30 ''Writing ISO to drive...'') (\<lambda>_.
     bind (invoke WriteImage (write_iso_impl st device_path iso_path cb)) (\<lambda>_.
     bind (progress cb 70 ''Setting up persistence...'') (\<lambda>_.
     bind (invoke ConfigurePersistence
             (setup_persistence_impl st device_path persistence_size cb)) (\<lambda>_.
     bind (progress cb 90 ''Installing bootloader...'') (\<lambda>_.
     bind (invoke InstallBootloader (install_bootloader_impl st device_path iso_path cb)) (\<lambda>_.
     bind (progress cb 100 ''Bootable drive created successfully!'') (\<lambda>_.
     ret True)))))))))"

text \<open>
  \<^verbatim>\<open>except Exception as e\<close>, lines 91 to 95. The clause catches an instance of a class
  derived from \<^verbatim>\<open>Exception\<close>: the error event at percentage 0, then the same
  exception again. Any other exception leaves the \<^verbatim>\<open>try\<close> statement without
  entering the clause.
\<close>

definition except_clause :: "bool \<Rightarrow> py_error \<Rightarrow> event list" where
  "except_clause cb e =
     (if derives_from_Exception (exc_cls e)
      then snd (progress cb 0 (''Error: '' @ exc_str e))
      else [])"

definition on_error :: "bool \<Rightarrow> bool res \<Rightarrow> bool res" where
  "on_error cb m =
     (case fst m of
        Inl e \<Rightarrow> (Inl e, snd m @ except_clause cb e)
      | Inr b \<Rightarrow> m)"

text \<open>
  The whole method, lines 32 to 95. \<open>exists\<close> is \<^verbatim>\<open>os.path.exists\<close> of the host.
\<close>

definition create_bootable_drive_with ::
  "strategy \<Rightarrow> (string \<Rightarrow> bool) \<Rightarrow> string \<Rightarrow> string \<Rightarrow> int \<Rightarrow> bool \<Rightarrow> bool res" where
  "create_bootable_drive_with st exists device_path iso_path persistence_size cb =
     (if \<not> exists iso_path
      then raise (PyError FileNotFoundError (''ISO file not found: '' @ iso_path))
      else bind (progress cb 0 ''Starting bootable drive creation...'') (\<lambda>_.
           on_error cb (run_stages st device_path iso_path persistence_size cb)))"

section \<open>String operations of the Python library\<close>

text \<open>
  A Python \<^verbatim>\<open>str\<close> is modelled as a list of characters with code points below 256.
\<close>

definition nl :: string where
  "nl = ''\<newline>''"

definition backslash :: char where
  "backslash = CHR 0x5C"

text \<open>\<^verbatim>\<open>s.rstrip(chars)\<close>: trailing characters that occur in \<open>chars\<close> are removed.\<close>

definition rstrip :: "string \<Rightarrow> string \<Rightarrow> string" where
  "rstrip chars s = rev (dropWhile (\<lambda>c. c \<in> set chars) (rev s))"

text \<open>\<^verbatim>\<open>str.isspace\<close> on code points below 256, and \<^verbatim>\<open>s.strip()\<close>.\<close>

definition isspace :: "char \<Rightarrow> bool" where
  "isspace c = (let n = (of_char c :: nat) in
     (9 \<le> n \<and> n \<le> 13) \<or> (28 \<le> n \<and> n \<le> 32) \<or> n = 133 \<or> n = 160)"

definition strip :: "string \<Rightarrow> string" where
  "strip s = rev (dropWhile isspace (rev (dropWhile isspace s)))"

text \<open>\<^verbatim>\<open>s.split(sep)\<close> for a separator of one character: always at least one field.\<close>

fun split_chr :: "char \<Rightarrow> string \<Rightarrow> string list" where
  "split_chr sep [] = [[]]"
| "split_chr sep (c # cs) =
     (if c = sep then [] # split_chr sep cs
      else (case split_chr sep cs of
              [] \<Rightarrow> [[c]]
            | w # ws \<Rightarrow> (c # w) # ws))"

text \<open>\<^verbatim>\<open>sub in s\<close>.\<close>

fun contains :: "string \<Rightarrow> string \<Rightarrow> bool" where
  "contains sub [] = (sub = [])"
| "contains sub (c # cs) = (take (length sub) (c # cs) = sub \<or> contains sub cs)"

text \<open>\<^verbatim>\<open>str(n)\<close> of an integer, as an f-string formats it.\<close>

definition digit_chr :: "nat \<Rightarrow> char" where
  "digit_chr d = char_of (48 + d)"

function str_nat :: "nat \<Rightarrow> string" where
  "str_nat n = (if n < 10 then [digit_chr n] else str_nat (n div 10) @ [digit_chr (n mod 10)])"
  by pat_completeness auto
termination
  by (relation "measure id") auto

declare str_nat.simps [simp del]

definition str_int :: "int \<Rightarrow> string" where
  "str_int i = (if i < 0 then CHR ''-'' # str_nat (nat (- i)) else str_nat (nat i))"

text \<open>
  \<^verbatim>\<open>re.search(r"Disk (\d+)", s)\<close>, returning \<^verbatim>\<open>group(1)\<close> of the leftmost match:
  the longest run of decimal digits after the first \<^verbatim>\<open>"Disk "\<close> that is followed by
  a digit. \<open>None\<close> is Python's \<^verbatim>\<open>None\<close> (no match).
\<close>

definition isdigit :: "char \<Rightarrow> bool" where
  "isdigit c = (let n = (of_char c :: nat) in 48 \<le> n \<and> n \<le> 57)"

fun re_search_disk :: "string \<Rightarrow> string option" where
  "re_search_disk [] = None"
| "re_search_disk (c # cs) =
     (if take 5 (c # cs) = ''Disk '' \<and> takeWhile isdigit (drop 5 (c # cs)) \<noteq> []
      then Some (takeWhile isdigit (drop 5 (c # cs)))
      else re_search_disk cs)"

text \<open>
  \<^verbatim>\<open>os.path.join(tempfile.gettempdir(), name)\<close> for a plain file name, as
  \<^verbatim>\<open>ntpath\<close> joins (the two callers run on Windows only): no separator is added
  after an empty directory, after a directory that ends with a separator, and after a bare
  drive such as \<^verbatim>\<open>C:\<close>. Directories written with a UNC or device prefix, whose
  drive part \<^verbatim>\<open>ntpath\<close> splits off by other rules, are not covered: only that the two
  script names give two different paths is used below.
\<close>

definition os_path_join :: "string \<Rightarrow> string \<Rightarrow> string" where
  "os_path_join dir name =
     (if dir = [] \<or> last dir \<in> {CHR ''/'', backslash}
         \<or> (length dir = 2 \<and> dir ! 1 = CHR '':'')
      then dir @ name
      else dir @ [backslash] @ name)"

section \<open>The host\<close>

text \<open>
  Everything the methods ask of the operating system is a field of the host:
  \<^verbatim>\<open>platform.system()\<close>, \<^verbatim>\<open>os.path.exists\<close>, \<^verbatim>\<open>shutil.which\<close> (whether it finds
  the tool), \<^verbatim>\<open>tempfile.gettempdir()\<close>, whether \<^verbatim>\<open>open(path, "w")\<close> raises, and what
  starting a process gives. A process either cannot be started (the exception of
  \<^verbatim>\<open>subprocess\<close>: \<^verbatim>\<open>FileNotFoundError\<close> for a tool that is not on the path) or runs
  to completion. The process behind \<^verbatim>\<open>Popen\<close> is given by the lines it writes to
  standard error before it exits, and its exit status.

  What a call of the library raises is an instance of a class derived from
  \<^verbatim>\<open>Exception\<close>: \<^verbatim>\<open>FileNotFoundError\<close>, \<^verbatim>\<open>OSError\<close> itself, or another class
  given by its name. An interrupt of the process (\<^verbatim>\<open>KeyboardInterrupt\<close>) is not an
  answer of the host.
\<close>

datatype lib_class = LibFileNotFoundError | LibOSError | LibOtherError string

datatype lib_error = LibError (lib_cls: lib_class) (lib_str: string)

fun exc_class_of :: "lib_class \<Rightarrow> exc_class" where
  "exc_class_of LibFileNotFoundError = FileNotFoundError"
| "exc_class_of LibOSError = EnvironmentError"
| "exc_class_of (LibOtherError name) = OtherError name"

definition exception_of :: "lib_error \<Rightarrow> py_error" where
  "exception_of e = PyError (exc_class_of (lib_cls e)) (lib_str e)"

datatype completed = Completed (returncode: int) (stdout: string) (stderr: string)

datatype dd_process = DdProcess (stderr_lines: "string list") (dd_returncode: int)

datatype 'a launch = CannotStart lib_error | Started 'a

record host =
  system :: string
  path_exists :: "string \<Rightarrow> bool"
  which :: "string \<Rightarrow> bool"
  gettempdir :: string
  open_w :: "string \<Rightarrow> lib_error option"
  subprocess_run :: "string list \<Rightarrow> completed launch"
  subprocess_Popen :: "string list \<Rightarrow> dd_process launch"

text \<open>\<^verbatim>\<open>subprocess.run(cmd, capture_output=True, text=True)\<close>, without \<^verbatim>\<open>check\<close>.\<close>

definition run_cmd :: "host \<Rightarrow> string list \<Rightarrow> completed res" where
  "run_cmd h cmd =
     (case subprocess_run h cmd of
        CannotStart e \<Rightarrow> (Inl (exception_of e), [Run cmd])
      | Started r \<Rightarrow> (Inr r, [Run cmd]))"

text \<open>\<^verbatim>\<open>with open(path, "w") as f: f.write(...)\<close>.\<close>

definition write_file :: "host \<Rightarrow> string \<Rightarrow> string \<Rightarrow> unit res" where
  "write_file h path content =
     (case open_w h path of
        Some e \<Rightarrow> raise (exception_of e)
      | None \<Rightarrow> (Inr (), [WriteFile path content]))"

text \<open>
  \<^verbatim>\<open>try: ... finally: try: os.remove(script_path) except: pass\<close>: the removal is
  attempted on every path out of the block, and its own failure is swallowed.
\<close>

definition finally_remove :: "string \<Rightarrow> 'a res \<Rightarrow> 'a res" where
  "finally_remove path m = (fst m, snd m @ [RemoveFile path])"

section \<open>Stage 1: prepare the drive\<close>

text \<open>\<^verbatim>\<open>_get_windows_disk_number\<close>, lines 508 to 548.\<close>

definition get_windows_disk_number :: "host \<Rightarrow> string \<Rightarrow> string res" where
  "get_windows_disk_number h drive_path =
     (let drive_letter = rstrip [CHR '':'', backslash] drive_path;
          script_path = os_path_join (gettempdir h) ''diskpart_get_disk.txt''
      in finally_remove script_path
           (bind (write_file h script_path
                    (''select volume '' @ drive_letter @ nl @ ''detail disk'' @ nl
                     @ ''exit'' @ nl)) (\<lambda>_.
            bind (run_cmd h [''diskpart'', ''/s'', script_path]) (\<lambda>result.
            case re_search_disk (stdout result) of
              Some disk \<Rightarrow> ret disk
            | None \<Rightarrow> raise (PyError RuntimeError
                        (''Could not determine disk number for '' @ drive_path))))))"

text \<open>The diskpart script of \<^verbatim>\<open>_prepare_drive_windows\<close>, lines 139 to 157.\<close>

definition diskpart_script :: "string \<Rightarrow> int \<Rightarrow> string" where
  \<open>diskpart_script disk_number persistence_size =
     ''select disk '' @ disk_number @ nl
     @ ''clean'' @ nl
     @ ''convert mbr'' @ nl
     @ ''create partition primary size=4096'' @ nl
     @ ''format quick fs=fat32 label="LINUX_BOOT"'' @ nl
     @ ''active'' @ nl
     @ ''create partition primary size='' @ str_int (persistence_size * 1024) @ nl
     @ ''format quick fs=ntfs label="PERSISTENCE"'' @ nl
     @ ''create partition primary'' @ nl
     @ ''format quick fs=ntfs label="DATA"'' @ nl
     @ ''assign'' @ nl
     @ ''exit'' @ nl\<close>

text \<open>\<^verbatim>\<open>_prepare_drive_windows\<close>, lines 119 to 179.\<close>

definition prepare_drive_windows :: "host \<Rightarrow> string \<Rightarrow> int \<Rightarrow> bool \<Rightarrow> unit res" where
  "prepare_drive_windows h device_path persistence_size cb =
     bind (get_windows_disk_number h device_path) (\<lambda>disk_number.
       let script_path = os_path_join (gettempdir h) ''diskpart_script.txt''
       in finally_remove script_path
            (bind (write_file h script_path
                     (diskpart_script disk_number persistence_size)) (\<lambda>_.
             bind (progress cb 10 ''Formatting drive...'') (\<lambda>_.
             bind (run_cmd h [''diskpart'', ''/s'', script_path]) (\<lambda>result.
             if returncode result \<noteq> 0
             then raise (PyError RuntimeError
                    (''Failed to prepare drive: '' @ stderr result))
             else ret ())))))"

text \<open>\<^verbatim>\<open>_prepare_drive_macos\<close>, lines 181 to 198: a placeholder.\<close>

definition prepare_drive_macos :: "host \<Rightarrow> string \<Rightarrow> int \<Rightarrow> bool \<Rightarrow> unit res" where
  "prepare_drive_macos h device_path persistence_size cb =
     progress cb 15 ''Formatting drive on macOS...''"

text \<open>
  \<^verbatim>\<open>_get_linux_partitions\<close>, lines 550 to 581. With \<^verbatim>\<open>check=True\<close> a non-zero exit
  status raises \<^verbatim>\<open>CalledProcessError\<close>, the one class the method catches (it then
  returns the empty list); a process that cannot be started raises another class, which
  leaves the method.
\<close>

definition get_linux_partitions :: "host \<Rightarrow> string \<Rightarrow> string list res" where
  "get_linux_partitions h device_path =
     (let cmd = [''lsblk'', ''-no'', ''NAME'', device_path]
      in case subprocess_run h cmd of
           CannotStart e \<Rightarrow> (Inl (exception_of e), [Run cmd])
         | Started result \<Rightarrow>
             if returncode result \<noteq> 0 then (Inr [], [Run cmd])
             else (let lines = split_chr (CHR 0x0A) (strip (stdout result));
                       partition_names = drop 1 lines
                   in (Inr (map (\<lambda>name. ''/dev/'' @ name) partition_names), [Run cmd])))"

text \<open>
  \<^verbatim>\<open>_unmount_partition\<close>, lines 583 to 596: \<^verbatim>\<open>try: ... except: pass\<close> around a
  \<^verbatim>\<open>subprocess.run\<close> whose result is dropped and whose exit status is not looked at.
\<close>

definition except_pass :: "'a res \<Rightarrow> unit res" where
  "except_pass m = (case fst m of Inl e \<Rightarrow> (Inr (), snd m) | Inr x \<Rightarrow> (Inr (), snd m))"

definition unmount_partition :: "host \<Rightarrow> string \<Rightarrow> unit res" where
  "unmount_partition h partition_path = except_pass (run_cmd h [''umount'', partition_path])"

text \<open>\<^verbatim>\<open>_unmount_all_partitions\<close>, lines 598 to 610, and its \<^verbatim>\<open>for\<close> loop.\<close>

fun unmount_each :: "host \<Rightarrow> string list \<Rightarrow> unit res" where
  "unmount_each h [] = ret ()"
| "unmount_each h (part # rest) =
     bind (unmount_partition h part) (\<lambda>_. unmount_each h rest)"

definition unmount_all_partitions :: "host \<Rightarrow> string \<Rightarrow> unit res" where
  "unmount_all_partitions h device_path =
     bind (get_linux_partitions h device_path) (\<lambda>partitions. unmount_each h partitions)"

text \<open>\<^verbatim>\<open>_prepare_drive_linux\<close>, lines 200 to 220.\<close>

definition prepare_drive_linux :: "host \<Rightarrow> string \<Rightarrow> int \<Rightarrow> bool \<Rightarrow> unit res" where
  "prepare_drive_linux h device_path persistence_size cb =
     bind (unmount_all_partitions h device_path) (\<lambda>_.
     progress cb 15 ''Formatting drive on Linux...'')"

text \<open>The dispatch on \<^verbatim>\<open>self.system\<close>, the same in all four stage methods.\<close>

definition unsupported :: "host \<Rightarrow> unit res" where
  "unsupported h =
     raise (PyError NotImplementedError (''Unsupported operating system: '' @ system h))"

text \<open>\<^verbatim>\<open>_prepare_drive\<close>, lines 97 to 117.\<close>

definition prepare_drive :: "host \<Rightarrow> string \<Rightarrow> int \<Rightarrow> bool \<Rightarrow> unit res" where
  "prepare_drive h device_path persistence_size cb =
     (if system h = ''Windows'' then prepare_drive_windows h device_path persistence_size cb
      else if system h = ''Darwin'' then prepare_drive_macos h device_path persistence_size cb
      else if system h = ''Linux'' then prepare_drive_linux h device_path persistence_size cb
      else unsupported h)"

section \<open>Stage 2: write the image\<close>

text \<open>\<^verbatim>\<open>_write_iso_windows\<close> and \<^verbatim>\<open>_write_iso_macos\<close>, lines 244 to 280: placeholders.\<close>

definition write_iso_windows :: "host \<Rightarrow> string \<Rightarrow> string \<Rightarrow> bool \<Rightarrow> unit res" where
  "write_iso_windows h device_path iso_path cb = progress cb 40 ''Writing ISO on Windows...''"

definition write_iso_macos :: "host \<Rightarrow> string \<Rightarrow> string \<Rightarrow> bool \<Rightarrow> unit res" where
  "write_iso_macos h device_path iso_path cb = progress cb 40 ''Writing ISO on macOS...''"

text \<open>
  The loop over \<^verbatim>\<open>iter(process.stderr.readline, '')\<close>, lines 322 to 332: one event at
  50 for every line that contains \<^verbatim>\<open>copied\<close>.
\<close>

fun monitor_stderr :: "bool \<Rightarrow> string list \<Rightarrow> unit res" where
  "monitor_stderr cb [] = ret ()"
| "monitor_stderr cb (line # rest) =
     bind (if contains ''copied'' line then progress cb 50 ''Writing ISO...'' else ret ())
       (\<lambda>_. monitor_stderr cb rest)"

definition dd_command :: "string \<Rightarrow> string \<Rightarrow> string list" where
  "dd_command device_path iso_path =
     [''pkexec'', ''dd'', ''if='' @ iso_path, ''of='' @ device_path, ''bs=4M'',
      ''status=progress'', ''oflag=sync'']"

text \<open>
  \<^verbatim>\<open>_write_iso_linux\<close>, lines 282 to 348. The two \<^verbatim>\<open>shutil.which\<close> checks come
  before the \<^verbatim>\<open>try\<close>. Inside it, a \<^verbatim>\<open>FileNotFoundError\<close> of \<^verbatim>\<open>Popen\<close> becomes a
  \<^verbatim>\<open>RuntimeError\<close> and any other exception is raised again as it is. After a
  non-zero exit status \<^verbatim>\<open>process.stderr.read()\<close> reads a stream that the loop has
  already read to its end, so the text appended to the message is empty.
\<close>

definition write_iso_linux :: "host \<Rightarrow> string \<Rightarrow> string \<Rightarrow> bool \<Rightarrow> unit res" where
  "write_iso_linux h device_path iso_path cb =
     (if \<not> which h ''pkexec''
      then raise (PyError EnvironmentError
             ''pkexec is not installed. Please install it to continue.'')
      else if \<not> which h ''dd''
      then raise (PyError EnvironmentError
             ''dd is not installed. Please install it to continue.'')
      else (let command = dd_command device_path iso_path
            in case subprocess_Popen h command of
                 CannotStart e \<Rightarrow>
                   (if lib_cls e = LibFileNotFoundError
                    then (Inl (PyError RuntimeError
                           ''dd command not found. Please ensure it is installed and in your PATH.''),
                          [Popen command])
                    else (Inl (exception_of e), [Popen command]))
               | Started process \<Rightarrow>
                   bind (Inr (), [Popen command]) (\<lambda>_.
                   bind (monitor_stderr cb (stderr_lines process)) (\<lambda>_.
                   if dd_returncode process \<noteq> 0
                   then (let stderr_output = []
                         in raise (PyError RuntimeError
                              (''Failed to write ISO to drive: '' @ stderr_output)))
                   else progress cb 70 ''ISO written successfully''))))"

text \<open>\<^verbatim>\<open>_write_iso\<close>, lines 222 to 242.\<close>

definition write_iso :: "host \<Rightarrow> string \<Rightarrow> string \<Rightarrow> bool \<Rightarrow> unit res" where
  "write_iso h device_path iso_path cb =
     (if system h = ''Windows'' then write_iso_windows h device_path iso_path cb
      else if system h = ''Darwin'' then write_iso_macos h device_path iso_path cb
      else if system h = ''Linux'' then write_iso_linux h device_path iso_path cb
      else unsupported h)"

section \<open>Stages 3 and 4: persistence and bootloader\<close>

text \<open>Lines 350 to 427: the three implementations are placeholders.\<close>

definition setup_persistence_windows :: "host \<Rightarrow> string \<Rightarrow> int \<Rightarrow> bool \<Rightarrow> unit res" where
  "setup_persistence_windows h device_path persistence_size cb =
     progress cb 75 ''Setting up persistence on Windows...''"

definition setup_persistence_macos :: "host \<Rightarrow> string \<Rightarrow> int \<Rightarrow> bool \<Rightarrow> unit res" where
  "setup_persistence_macos h device_path persistence_size cb =
     progress cb 75 ''Setting up persistence on macOS...''"

definition setup_persistence_linux :: "host \<Rightarrow> string \<Rightarrow> int \<Rightarrow> bool \<Rightarrow> unit res" where
  "setup_persistence_linux h device_path persistence_size cb =
     progress cb 75 ''Setting up persistence on Linux...''"

definition setup_persistence :: "host \<Rightarrow> string \<Rightarrow> int \<Rightarrow> bool \<Rightarrow> unit res" where
  "setup_persistence h device_path persistence_size cb =
     (if system h = ''Windows'' then setup_persistence_windows h device_path persistence_size cb
      else if system h = ''Darwin'' then setup_persistence_macos h device_path persistence_size cb
      else if system h = ''Linux'' then setup_persistence_linux h device_path persistence_size cb
      else unsupported h)"

text \<open>Lines 429 to 506, placeholders again.\<close>

definition install_bootloader_windows :: "host \<Rightarrow> string \<Rightarrow> string \<Rightarrow> bool \<Rightarrow> unit res" where
  "install_bootloader_windows h device_path iso_path cb =
     progress cb 95 ''Installing bootloader on Windows...''"

definition install_bootloader_macos :: "host \<Rightarrow> string \<Rightarrow> string \<Rightarrow> bool \<Rightarrow> unit res" where
  "install_bootloader_macos h device_path iso_path cb =
     progress cb 95 ''Installing bootloader on macOS...''"

definition install_bootloader_linux :: "host \<Rightarrow> string \<Rightarrow> string \<Rightarrow> bool \<Rightarrow> unit res" where
  "install_bootloader_linux h device_path iso_path cb =
     progress cb 95 ''Installing bootloader on Linux...''"

definition install_bootloader :: "host \<Rightarrow> string \<Rightarrow> string \<Rightarrow> bool \<Rightarrow> unit res" where
  "install_bootloader h device_path iso_path cb =
     (if system h = ''Windows'' then install_bootloader_windows h device_path iso_path cb
      else if system h = ''Darwin'' then install_bootloader_macos h device_path iso_path cb
      else if system h = ''Linux'' then install_bootloader_linux h device_path iso_path cb
      else unsupported h)"

section \<open>The class's own pipeline\<close>

definition platform_strategy :: "host \<Rightarrow> strategy" where
  "platform_strategy h =
     \<lparr>prepare_drive_impl = prepare_drive h,
      write_iso_impl = write_iso h,
      setup_persistence_impl = setup_persistence h,
      install_bootloader_impl = install_bootloader h\<rparr>"

text \<open>\<^verbatim>\<open>BootableCreator().create_bootable_drive(...)\<close> on the host \<open>h\<close>.\<close>

definition create_bootable_drive :: "host \<Rightarrow> string \<Rightarrow> string \<Rightarrow> int \<Rightarrow> bool \<Rightarrow> bool res" where
  "create_bootable_drive h device_path iso_path persistence_size cb =
     create_bootable_drive_with (platform_strategy h) (path_exists h)
       device_path iso_path persistence_size cb"

section \<open>Reading a trace\<close>

text \<open>The percentages passed to the callback, and the stages entered, in order.\<close>

fun percentages :: "event list \<Rightarrow> int list" where
  "percentages [] = []"
| "percentages (Progress pct msg # evs) = pct # percentages evs"
| "percentages (ev # evs) = percentages evs"

fun stage_calls :: "event list \<Rightarrow> stage list" where
  "stage_calls [] = []"
| "stage_calls (Call s # evs) = s # stage_calls evs"
| "stage_calls (ev # evs) = stage_calls evs"

text \<open>
  An event that starts a process or touches a file, and an event that starts the raw
  copy.
\<close>

fun is_external :: "event \<Rightarrow> bool" where
  "is_external (Run cmd) = True"
| "is_external (Popen cmd) = True"
| "is_external (WriteFile path content) = True"
| "is_external (RemoveFile path) = True"
| "is_external ev = False"

fun is_popen :: "event \<Rightarrow> bool" where
  "is_popen (Popen cmd) = True"
| "is_popen ev = False"

text \<open>An event of the callback at the percentage \<open>n\<close>.\<close>

fun is_percent :: "int \<Rightarrow> event \<Rightarrow> bool" where
  "is_percent n (Progress pct msg) = (pct = n)"
| "is_percent n ev = False"

text \<open>
  A list of percentages that is non-decreasing and stays between two bounds.
\<close>

definition band :: "int \<Rightarrow> int \<Rightarrow> int list \<Rightarrow> bool" where
  "band lo hi ps = (sorted ps \<and> (\<forall>p\<in>set ps. lo \<le> p \<and> p \<le> hi))"

section \<open>Reading a run\<close>

text \<open>
  The four stage implementations of a run with their results, in the order of the call
  sites: what each one raises or returns, and the events it records, when it is called
  with the arguments of the run.
\<close>

definition stage_results ::
  "strategy \<Rightarrow> string \<Rightarrow> string \<Rightarrow> int \<Rightarrow> bool \<Rightarrow> (stage \<times> unit res) list" where
  "stage_results st device_path iso_path persistence_size cb =
     [(Prepare, prepare_drive_impl st device_path persistence_size cb),
      (WriteImage, write_iso_impl st device_path iso_path cb),
      (ConfigurePersistence, setup_persistence_impl st device_path persistence_size cb),
      (InstallBootloader, install_bootloader_impl st device_path iso_path cb)]"

section \<open>Fixtures\<close>

text \<open>
  A substituted set of stage implementations whose third stage raises a
  \<^verbatim>\<open>PersistenceSetupError\<close> with the diagnostic text of its tool.
\<close>

definition failing_stage3 :: strategy where
  "failing_stage3 =
     \<lparr>prepare_drive_impl = (\<lambda>device_path persistence_size cb. progress cb 15 ''Partitioning...''),
      write_iso_impl = (\<lambda>device_path iso_path cb. progress cb 50 ''Copying...''),
      setup_persistence_impl = (\<lambda>device_path persistence_size cb.
        raise (PyError (OtherError ''PersistenceSetupError'') ''mkfs.ext4: exit status 1'')),
      install_bootloader_impl = (\<lambda>device_path iso_path cb. progress cb 95 ''Installing...'')\<rparr>"



text \<open>
  A Linux host on which everything works: the image exists, every tool is found,
  \<^verbatim>\<open>lsblk\<close> lists one partition, \<^verbatim>\<open>umount\<close> exits with status 32 (not mounted),
  and \<^verbatim>\<open>dd\<close> reports once and exits with status 0.
\<close>

definition linux_run :: "string list \<Rightarrow> completed launch" where
  "linux_run cmd =
     (if cmd = [''lsblk'', ''-no'', ''NAME'', ''/dev/sdb'']
      then Started (Completed 0 (''sdb'' @ nl @ ''sdb1'' @ nl) [])
      else if cmd = [''umount'', ''/dev/sdb1'']
      then Started (Completed 32 [] ''umount: /dev/sdb1: not mounted.'')
      else CannotStart (LibError LibFileNotFoundError ''[Errno 2] No such file or directory''))"

definition linux_host :: host where
  "linux_host =
     \<lparr>system = ''Linux'',
      path_exists = (\<lambda>path. path = ''ubuntu.iso''),
      which = (\<lambda>tool. True),
      gettempdir = ''/tmp'',
      open_w = (\<lambda>path. None),
      subprocess_run = linux_run,
      subprocess_Popen = (\<lambda>cmd. Started (DdProcess [''4194304 bytes copied'' @ nl] 0))\<rparr>"

text \<open>The same host without \<^verbatim>\<open>pkexec\<close>, and the same host without \<^verbatim>\<open>lsblk\<close>.\<close>

definition linux_no_pkexec :: host where
  "linux_no_pkexec = linux_host\<lparr>which := (\<lambda>tool. tool \<noteq> ''pkexec'')\<rparr>"

definition linux_no_lsblk :: host where
  "linux_no_lsblk =
     linux_host\<lparr>subprocess_run := (\<lambda>cmd.
       CannotStart (LibError LibFileNotFoundError ''[Errno 2] No such file or directory''))\<rparr>"

text \<open>
  A Windows host whose \<^verbatim>\<open>diskpart\<close> answers the detail query without naming a disk.
\<close>

definition windows_host :: host where
  "windows_host =
     \<lparr>system = ''Windows'',
      path_exists = (\<lambda>path. path = ''ubuntu.iso''),
      which = (\<lambda>tool. False),
      gettempdir = ''C:'' @ [backslash] @ ''Temp'',
      open_w = (\<lambda>path. None),
      subprocess_run = (\<lambda>cmd. Started (Completed 0 ''There is no volume selected.'' [])),
      subprocess_Popen = (\<lambda>cmd.
        CannotStart (LibError LibFileNotFoundError ''[WinError 2]''))\<rparr>"

text \<open>The same host with a \<^verbatim>\<open>diskpart\<close> that names the disk.\<close>

definition windows_disk1 :: host where
  "windows_disk1 =
     windows_host\<lparr>subprocess_run := (\<lambda>cmd.
       Started (Completed 0 ''Disk 1 is now the selected disk.'' []))\<rparr>"

section \<open>The image handler: \<^verbatim>\<open>calculate_checksum\<close>\<close>

unbundle bit_operations_syntax

text \<open>
  \<^verbatim>\<open>hashlib.sha256\<close> belongs to the Python library, not to the repository. Its digest
  is defined here as FIPS 180-4 defines SHA-256, on bytes and 32-bit words. The round
  constants and the initial hash value of the standard are written in decimal.
\<close>

type_synonym byte = "8 word"

definition sha256_K :: "32 word list" where
  "sha256_K =
    [1116352408, 1899447441, 3049323471, 3921009573, 961987163, 1508970993,
     2453635748, 2870763221, 3624381080, 310598401, 607225278, 1426881987,
     1925078388, 2162078206, 2614888103, 3248222580, 3835390401, 4022224774,
     264347078, 604807628, 770255983, 1249150122, 1555081692, 1996064986,
     2554220882, 2821834349, 2952996808, 3210313671, 3336571891, 3584528711,
     113926993, 338241895, 666307205, 773529912, 1294757372, 1396182291,
     1695183700, 1986661051, 2177026350, 2456956037, 2730485921, 2820302411,
     3259730800, 3345764771, 3516065817, 3600352804, 4094571909, 275423344,
     430227734, 506948616, 659060556, 883997877, 958139571, 1322822218,
     1537002063, 1747873779, 1955562222, 2024104815, 2227730452, 2361852424,
     2428436474, 2756734187, 3204031479, 3329325298]"

definition sha256_H0 :: "32 word list" where
  "sha256_H0 =
    [1779033703, 3144134277, 1013904242, 2773480762,
     1359893119, 2600822924, 528734635, 1541459225]"

definition rotr :: "nat \<Rightarrow> 32 word \<Rightarrow> 32 word" where
  "rotr n x = drop_bit n x OR push_bit (32 - n) x"

definition Ch :: "32 word \<Rightarrow> 32 word \<Rightarrow> 32 word \<Rightarrow> 32 word" where
  "Ch x y z = (x AND y) XOR (NOT x AND z)"

definition Maj :: "32 word \<Rightarrow> 32 word \<Rightarrow> 32 word \<Rightarrow> 32 word" where
  "Maj x y z = (x AND y) XOR (x AND z) XOR (y AND z)"

definition bsig0 :: "32 word \<Rightarrow> 32 word" where
  "bsig0 x = rotr 2 x XOR rotr 13 x XOR rotr 22 x"

definition bsig1 :: "32 word \<Rightarrow> 32 word" where
  "bsig1 x = rotr 6 x XOR rotr 11 x XOR rotr 25 x"

definition ssig0 :: "32 word \<Rightarrow> 32 word" where
  "ssig0 x = rotr 7 x XOR rotr 18 x XOR drop_bit 3 x"

definition ssig1 :: "32 word \<Rightarrow> 32 word" where
  "ssig1 x = rotr 17 x XOR rotr 19 x XOR drop_bit 10 x"

text \<open>Big-endian bytes of a word and of the 64-bit length field.\<close>

definition word_bytes :: "32 word \<Rightarrow> byte list" where
  "word_bytes w = [ucast (drop_bit 24 w), ucast (drop_bit 16 w), ucast (drop_bit 8 w), ucast w]"

definition length_bytes :: "64 word \<Rightarrow> byte list" where
  "length_bytes n = map (\<lambda>i. ucast (drop_bit (8 * i) n)) [7, 6, 5, 4, 3, 2, 1, 0]"

text \<open>
  Padding: the byte \<open>0x80\<close>, zero bytes up to 56 modulo 64, the length of the message in
  bits.
\<close>

definition sha256_pad :: "byte list \<Rightarrow> byte list" where
  "sha256_pad msg =
     msg @ [0x80] @ replicate ((119 - length msg mod 64) mod 64) 0
     @ length_bytes (8 * word_of_nat (length msg))"

fun be_words :: "byte list \<Rightarrow> 32 word list" where
  "be_words (b0 # b1 # b2 # b3 # bs) =
     (push_bit 24 (ucast b0) OR push_bit 16 (ucast b1) OR push_bit 8 (ucast b2) OR ucast b3)
     # be_words bs"
| "be_words bs = []"

text \<open>The message schedule: \<open>schedule 48\<close> extends the 16 words of a block to 64.\<close>

fun schedule :: "nat \<Rightarrow> 32 word list \<Rightarrow> 32 word list" where
  "schedule 0 ws = ws"
| "schedule (Suc n) ws =
     schedule n
       (ws @ [ssig1 (ws ! (length ws - 2)) + ws ! (length ws - 7)
              + ssig0 (ws ! (length ws - 15)) + ws ! (length ws - 16)])"

text \<open>The 64 rounds on the eight working variables, one per constant and schedule word.\<close>

fun rounds :: "(32 word \<times> 32 word) list \<Rightarrow> 32 word list \<Rightarrow> 32 word list" where
  "rounds ((k, w) # kws) [a, b, c, d, e, f, g, h] =
     (let t1 = h + bsig1 e + Ch e f g + k + w;
          t2 = bsig0 a + Maj a b c
      in rounds kws [t1 + t2, a, b, c, d + t1, e, f, g])"
| "rounds kws s = s"

definition compress :: "32 word list \<Rightarrow> byte list \<Rightarrow> 32 word list" where
  "compress hs block =
     map2 (+) hs (rounds (zip sha256_K (schedule 48 (be_words block))) hs)"

function blocks64 :: "byte list \<Rightarrow> byte list list" where
  "blocks64 bs = (if length bs < 64 then [] else take 64 bs # blocks64 (drop 64 bs))"
  by pat_completeness auto
termination
  by (relation "measure length") auto

declare blocks64.simps [simp del]

definition sha256 :: "byte list \<Rightarrow> byte list" where
  "sha256 msg =
     concat (map word_bytes (foldl compress sha256_H0 (blocks64 (sha256_pad msg))))"

text \<open>Lower-case hexadecimal, as \<^verbatim>\<open>hexdigest\<close> prints it.\<close>

definition hex_digit :: "nat \<Rightarrow> char" where
  "hex_digit d = (if d < 10 then char_of (48 + d) else char_of (87 + d))"

definition hex_of_bytes :: "byte list \<Rightarrow> string" where
  "hex_of_bytes bs =
     concat (map (\<lambda>b. [hex_digit (unat b div 16), hex_digit (unat b mod 16)]) bs)"

text \<open>
  The hash object of \<^verbatim>\<open>hashlib\<close>, by its contract: \<^verbatim>\<open>update\<close> appends to the data
  fed so far, and \<^verbatim>\<open>hexdigest\<close> is the digest of all of it.
\<close>

datatype sha256_hash = Sha256Hash (fed: "byte list")

definition hashlib_sha256 :: sha256_hash where
  "hashlib_sha256 = Sha256Hash []"

definition update :: "sha256_hash \<Rightarrow> byte list \<Rightarrow> sha256_hash" where
  "update hs block = Sha256Hash (fed hs @ block)"

definition hexdigest :: "sha256_hash \<Rightarrow> string" where
  "hexdigest hs = hex_of_bytes (sha256 (fed hs))"

text \<open>
  The files of the host: a path that does not exist, a file that \<^verbatim>\<open>open(path, "rb")\<close>
  refuses with an exception, or a file with its bytes.
\<close>

datatype file_entry = Readable "byte list" | Unreadable py_error

type_synonym filesystem = "string \<Rightarrow> file_entry option"

text \<open>
  The loop \<^verbatim>\<open>for byte_block in iter(lambda: f.read(4096), b"")\<close>, lines 50 and 51:
  \<open>rest\<close> is what the file object has not yet read.
\<close>

function read_blocks :: "sha256_hash \<Rightarrow> byte list \<Rightarrow> sha256_hash" where
  "read_blocks sha256_hash rest =
     (let byte_block = take 4096 rest
      in if byte_block = [] then sha256_hash
         else read_blocks (update sha256_hash byte_block) (drop 4096 rest))"
  by pat_completeness auto
termination
  by (relation "measure (\<lambda>(sha256_hash, rest). length rest)") auto

declare read_blocks.simps [simp del]

text \<open>\<^verbatim>\<open>ISOHandler.calculate_checksum\<close>, lines 28 to 59.\<close>

definition calculate_checksum :: "filesystem \<Rightarrow> string \<Rightarrow> py_error + string" where
  "calculate_checksum fs file_path =
     (case fs file_path of
        None \<Rightarrow> Inl (PyError FileNotFoundError (''File not found: '' @ file_path))
      | Some (Unreadable e) \<Rightarrow> Inl e
      | Some (Readable content) \<Rightarrow> Inr (hexdigest (read_blocks hashlib_sha256 content)))"

text \<open>
  The fixture of \<^verbatim>\<open>test_iso_handler\<close>, lines 191 to 193: one file,
  \<^verbatim>\<open>test_file.txt\<close>, holding \<^verbatim>\<open>Hello, world!\<close>.
\<close>

definition bytes_of :: "string \<Rightarrow> byte list" where
  "bytes_of s = map (\<lambda>c. of_nat (of_char c)) s"

definition test_files :: filesystem where
  "test_files = (\<lambda>path. None)(''test_file.txt'' \<mapsto> Readable (bytes_of ''Hello, world!''))"

section \<open>Properties\<close>

text \<open>
  Claim C3. For every request whose image path does not exist, \<^verbatim>\<open>create_bootable_drive\<close>
  fails with the validation error of the source (a \<^verbatim>\<open>FileNotFoundError\<close> naming the
  path) before stage 1: whatever the stage implementations, the device, the persistence
  size and the callback, the run records no event at all, so no stage was entered and no
  progress event was emitted.
\<close>

theorem missing_image_fails_before_stage_1:
  assumes "\<not> exists iso_path"
  shows "create_bootable_drive_with st exists device_path iso_path persistence_size cb
         = (Inl (PyError FileNotFoundError (''ISO file not found: '' @ iso_path)), [])"
  using assms by (simp add: create_bootable_drive_with_def raise_def)

theorem missing_image_fails_before_stage_1_witness:
  "\<not> (\<lambda>path::string. False) ''missing.iso''
   \<and> create_bootable_drive_with failing_stage3 (\<lambda>path. False)
         ''/dev/sdX'' ''missing.iso'' 8 True
       = (Inl (PyError FileNotFoundError ''ISO file not found: missing.iso''), [])"
proof -
  have missing: "\<not> (\<lambda>path::string. False) ''missing.iso''" by simp
  show ?thesis
    using missing_image_fails_before_stage_1
      [of "\<lambda>path. False" "''missing.iso''" failing_stage3 "''/dev/sdX''" 8 True]
    by simp
qed

subsection \<open>The pipeline over any stage implementations\<close>

lemma bind_Inr: "fst m = Inr x \<Longrightarrow> bind m f = (fst (f x), snd m @ snd (f x))"
  by (simp add: bind_def)

lemma bind_Inl: "fst m = Inl e \<Longrightarrow> bind m f = (Inl e, snd m)"
  by (simp add: bind_def)

lemma bind_progress:
  "bind (progress cb pct msg) f = (fst (f ()), snd (progress cb pct msg) @ snd (f ()))"
  by (simp add: bind_def progress_def)

lemma fst_invoke: "fst (invoke s body) = fst body"
  by (simp add: invoke_def)

lemma snd_invoke: "snd (invoke s body) = Call s # snd body"
  by (simp add: invoke_def)

lemma unit_res_cases:
  fixes m :: "unit res"
  obtains (ok) "fst m = Inr ()" | (err) e where "fst m = Inl e"
  by (cases "fst m") auto

lemma run_stages_ok:
  assumes "fst (prepare_drive_impl st d p cb) = Inr ()"
      and "fst (write_iso_impl st d i cb) = Inr ()"
      and "fst (setup_persistence_impl st d p cb) = Inr ()"
      and "fst (install_bootloader_impl st d i cb) = Inr ()"
  shows "run_stages st d i p cb =
     (Inr True,
      snd (progress cb 5 ''Preparing drive...'')
      @ Call Prepare # snd (prepare_drive_impl st d p cb)
      @ snd (progress cb 30 ''Writing ISO to drive...'')
      @ Call WriteImage # snd (write_iso_impl st d i cb)
      @ snd (progress cb 70 ''Setting up persistence...'')
      @ Call ConfigurePersistence # snd (setup_persistence_impl st d p cb)
      @ snd (progress cb 90 ''Installing bootloader...'')
      @ Call InstallBootloader # snd (install_bootloader_impl st d i cb)
      @ snd (progress cb 100 ''Bootable drive created successfully!''))"
  using assms
  by (simp add: run_stages_def bind_progress bind_Inr fst_invoke snd_invoke ret_def)

lemma run_stages_fail1:
  assumes "fst (prepare_drive_impl st d p cb) = Inl e"
  shows "run_stages st d i p cb =
     (Inl e,
      snd (progress cb 5 ''Preparing drive...'')
      @ Call Prepare # snd (prepare_drive_impl st d p cb))"
  using assms
  by (simp add: run_stages_def bind_progress bind_Inl fst_invoke snd_invoke)

lemma run_stages_fail2:
  assumes "fst (prepare_drive_impl st d p cb) = Inr ()"
      and "fst (write_iso_impl st d i cb) = Inl e"
  shows "run_stages st d i p cb =
     (Inl e,
      snd (progress cb 5 ''Preparing drive...'')
      @ Call Prepare # snd (prepare_drive_impl st d p cb)
      @ snd (progress cb 30 ''Writing ISO to drive...'')
      @ Call WriteImage # snd (write_iso_impl st d i cb))"
  using assms
  by (simp add: run_stages_def bind_progress bind_Inl bind_Inr fst_invoke snd_invoke)

lemma run_stages_fail3:
  assumes "fst (prepare_drive_impl st d p cb) = Inr ()"
      and "fst (write_iso_impl st d i cb) = Inr ()"
      and "fst (setup_persistence_impl st d p cb) = Inl e"
  shows "run_stages st d i p cb =
     (Inl e,
      snd (progress cb 5 ''Preparing drive...'')
      @ Call Prepare # snd (prepare_drive_impl st d p cb)
      @ snd (progress cb 30 ''Writing ISO to drive...'')
      @ Call WriteImage # snd (write_iso_impl st d i cb)
      @ snd (progress cb 70 ''Setting up persistence...'')
      @ Call ConfigurePersistence # snd (setup_persistence_impl st d p cb))"
  using assms
  by (simp add: run_stages_def bind_progress bind_Inl bind_Inr fst_invoke snd_invoke)

lemma run_stages_fail4:
  assumes "fst (prepare_drive_impl st d p cb) = Inr ()"
      and "fst (write_iso_impl st d i cb) = Inr ()"
      and "fst (setup_persistence_impl st d p cb) = Inr ()"
      and "fst (install_bootloader_impl st d i cb) = Inl e"
  shows "run_stages st d i p cb =
     (Inl e,
      snd (progress cb 5 ''Preparing drive...'')
      @ Call Prepare # snd (prepare_drive_impl st d p cb)
      @ snd (progress cb 30 ''Writing ISO to drive...'')
      @ Call WriteImage # snd (write_iso_impl st d i cb)
      @ snd (progress cb 70 ''Setting up persistence...'')
      @ Call ConfigurePersistence # snd (setup_persistence_impl st d p cb)
      @ snd (progress cb 90 ''Installing bootloader...'')
      @ Call InstallBootloader # snd (install_bootloader_impl st d i cb))"
  using assms
  by (simp add: run_stages_def bind_progress bind_Inl bind_Inr fst_invoke snd_invoke)

lemma create_with_exists:
  assumes "exists i"
  shows "create_bootable_drive_with st exists d i p cb =
     (fst (on_error cb (run_stages st d i p cb)),
      snd (progress cb 0 ''Starting bootable drive creation...'')
      @ snd (on_error cb (run_stages st d i p cb)))"
  using assms by (simp add: create_bootable_drive_with_def bind_progress)

lemma on_error_Inl: "fst m = Inl e \<Longrightarrow> on_error cb m = (Inl e, snd m @ except_clause cb e)"
  by (simp add: on_error_def)

lemma except_clause_Exception:
  "derives_from_Exception (exc_cls e) \<Longrightarrow>
   except_clause cb e = snd (progress cb 0 (''Error: '' @ exc_str e))"
  by (simp add: except_clause_def)

lemma stage_calls_except_clause: "stage_calls (except_clause cb e) = []"
  by (simp add: except_clause_def progress_def)

lemma on_error_Inr: "fst m = Inr b \<Longrightarrow> on_error cb m = m"
  by (simp add: on_error_def)

lemma stage_calls_append: "stage_calls (xs @ ys) = stage_calls xs @ stage_calls ys"
  by (induction xs rule: stage_calls.induct) simp_all

lemma stage_calls_progress: "stage_calls (snd (progress cb pct msg)) = []"
  by (simp add: progress_def)

lemma percentages_append: "percentages (xs @ ys) = percentages xs @ percentages ys"
  by (induction xs rule: percentages.induct) simp_all

lemma stage_results_nth:
  "stage_results st d i p cb ! 0 = (Prepare, prepare_drive_impl st d p cb)"
  "stage_results st d i p cb ! Suc 0 = (WriteImage, write_iso_impl st d i cb)"
  "stage_results st d i p cb ! Suc (Suc 0) = (ConfigurePersistence, setup_persistence_impl st d p cb)"
  "stage_results st d i p cb ! Suc (Suc (Suc 0)) = (InstallBootloader, install_bootloader_impl st d i cb)"
  by (simp_all add: stage_results_def)

lemma less_4_cases: "k < 4 \<Longrightarrow> k = 0 \<or> k = Suc 0 \<or> k = Suc (Suc 0) \<or> k = Suc (Suc (Suc 0))"
  by arith



subsection \<open>The stage implementations of the class\<close>

lemma fst_bind: "fst (bind m f) = (case fst m of Inl e \<Rightarrow> Inl e | Inr x \<Rightarrow> fst (f x))"
  by (simp add: bind_def split: sum.splits)

lemma snd_bind:
  "snd (bind m f) = (case fst m of Inl e \<Rightarrow> snd m | Inr x \<Rightarrow> snd m @ snd (f x))"
  by (simp add: bind_def split: sum.splits)

lemma fst_progress: "fst (progress cb pct msg) = Inr ()"
  by (simp add: progress_def)

lemma percentages_progress:
  "percentages (snd (progress cb pct msg)) = (if cb then [pct] else [])"
  by (simp add: progress_def)

lemma filter_popen_progress: "filter is_popen (snd (progress cb pct msg)) = []"
  by (simp add: progress_def)

lemma fst_unmount_partition: "fst (unmount_partition h part) = Inr ()"
  by (simp add: unmount_partition_def except_pass_def split: sum.splits)

lemma snd_unmount_partition: "snd (unmount_partition h part) = [Run [''umount'', part]]"
  by (simp add: unmount_partition_def except_pass_def run_cmd_def split: sum.splits launch.splits)

lemma fst_unmount_each: "fst (unmount_each h parts) = Inr ()"
  by (induction parts) (simp_all add: ret_def fst_bind fst_unmount_partition)

lemma snd_unmount_each:
  "snd (unmount_each h parts) = map (\<lambda>part. Run [''umount'', part]) parts"
  by (induction parts) (simp_all add: ret_def snd_bind fst_unmount_partition snd_unmount_partition)

lemma snd_get_linux_partitions:
  "snd (get_linux_partitions h d) = [Run [''lsblk'', ''-no'', ''NAME'', d]]"
  by (simp add: get_linux_partitions_def Let_def split: launch.splits)

lemma fst_get_linux_partitions_Inl:
  "(fst (get_linux_partitions h d) = Inl e)
   = (\<exists>err. subprocess_run h [''lsblk'', ''-no'', ''NAME'', d] = CannotStart err
            \<and> e = exception_of err)"
  by (auto simp add: get_linux_partitions_def Let_def split: launch.splits)

lemma fst_unmount_all_Inl:
  "(fst (unmount_all_partitions h d) = Inl e)
   = (\<exists>err. subprocess_run h [''lsblk'', ''-no'', ''NAME'', d] = CannotStart err
            \<and> e = exception_of err)"
proof -
  have "(fst (unmount_all_partitions h d) = Inl e) = (fst (get_linux_partitions h d) = Inl e)"
    by (simp add: unmount_all_partitions_def fst_bind fst_unmount_each split: sum.splits)
  then show ?thesis
    by (simp only: fst_get_linux_partitions_Inl)
qed

lemma snd_unmount_all:
  "snd (unmount_all_partitions h d)
     = Run [''lsblk'', ''-no'', ''NAME'', d]
       # map (\<lambda>part. Run [''umount'', part])
           (case fst (get_linux_partitions h d) of Inl e \<Rightarrow> [] | Inr parts \<Rightarrow> parts)"
  by (cases "fst (get_linux_partitions h d)")
     (simp_all add: unmount_all_partitions_def snd_bind snd_get_linux_partitions snd_unmount_each)

lemma map_Run_quiet:
  "stage_calls (map (\<lambda>part. Run [''umount'', part]) parts) = []"
  "percentages (map (\<lambda>part. Run [''umount'', part]) parts) = []"
  "filter is_popen (map (\<lambda>part. Run [''umount'', part]) parts) = []"
  by (induction parts) simp_all

lemma unmount_all_quiet:
  "stage_calls (snd (unmount_all_partitions h d)) = []"
  "percentages (snd (unmount_all_partitions h d)) = []"
  "filter is_popen (snd (unmount_all_partitions h d)) = []"
  by (simp_all add: snd_unmount_all map_Run_quiet)

lemma prepare_drive_linux_quiet:
  "stage_calls (snd (prepare_drive_linux h d p cb)) = []"
  "filter is_popen (snd (prepare_drive_linux h d p cb)) = []"
  "percentages (snd (prepare_drive_linux h d p cb)) \<in> {[], [15]}"
  by (simp_all add: prepare_drive_linux_def snd_bind unmount_all_quiet stage_calls_append
      stage_calls_progress percentages_append percentages_progress filter_popen_progress
      split: sum.splits)

lemma snd_finally_remove: "snd (finally_remove path m) = snd m @ [RemoveFile path]"
  by (simp add: finally_remove_def)

lemma get_windows_disk_number_quiet:
  "stage_calls (snd (get_windows_disk_number h d)) = []"
  "filter is_popen (snd (get_windows_disk_number h d)) = []"
  "percentages (snd (get_windows_disk_number h d)) = []"
  by (simp_all add: get_windows_disk_number_def Let_def snd_finally_remove snd_bind
      write_file_def run_cmd_def raise_def ret_def stage_calls_append percentages_append
      split: sum.splits option.splits launch.splits)

lemma prepare_drive_windows_quiet:
  "stage_calls (snd (prepare_drive_windows h d p cb)) = []"
  "filter is_popen (snd (prepare_drive_windows h d p cb)) = []"
  "percentages (snd (prepare_drive_windows h d p cb)) \<in> {[], [10]}"
  by (simp_all add: prepare_drive_windows_def Let_def snd_finally_remove snd_bind fst_bind
      get_windows_disk_number_quiet
      write_file_def run_cmd_def raise_def ret_def stage_calls_append percentages_append
      stage_calls_progress percentages_progress filter_popen_progress fst_progress
      split: sum.splits option.splits launch.splits)

lemma prepare_drive_quiet:
  "stage_calls (snd (prepare_drive h d p cb)) = []"
  "filter is_popen (snd (prepare_drive h d p cb)) = []"
  "percentages (snd (prepare_drive h d p cb)) \<in> {[], [10], [15]}"
  using prepare_drive_windows_quiet [of h d p cb] prepare_drive_linux_quiet [of h d p cb]
  by (auto simp add: prepare_drive_def prepare_drive_macos_def unsupported_def raise_def
      progress_def)

lemma band_Nil: "band lo hi []"
  by (simp add: band_def)

lemma band_append:
  "band a b xs \<Longrightarrow> band c d ys \<Longrightarrow> b \<le> c \<Longrightarrow> a \<le> c \<Longrightarrow> b \<le> d \<Longrightarrow> band a d (xs @ ys)"
  by (fastforce simp add: band_def sorted_append)

lemma band_widen: "band a b xs \<Longrightarrow> a' \<le> a \<Longrightarrow> b \<le> b' \<Longrightarrow> band a' b' xs"
  by (fastforce simp add: band_def)

lemma band_progress: "lo \<le> pct \<Longrightarrow> pct \<le> hi \<Longrightarrow> band lo hi (percentages (snd (progress cb pct msg)))"
  by (simp add: percentages_progress band_def)

lemma band_progress_exact: "band pct pct (percentages (snd (progress cb pct msg)))"
  by (simp add: percentages_progress band_def)

lemma fst_monitor_stderr: "fst (monitor_stderr cb ls) = Inr ()"
  by (induction ls) (simp_all add: ret_def fst_bind fst_progress split: sum.splits)

lemma monitor_stderr_quiet:
  "stage_calls (snd (monitor_stderr cb ls)) = []"
  "band 50 50 (percentages (snd (monitor_stderr cb ls)))"
proof (induction ls)
  case Nil
  show "stage_calls (snd (monitor_stderr cb [])) = []"
    "band 50 50 (percentages (snd (monitor_stderr cb [])))"
    by (simp_all add: ret_def band_Nil)
next
  case (Cons l ls)
  show "stage_calls (snd (monitor_stderr cb (l # ls))) = []"
    using Cons.IH(1)
    by (simp add: snd_bind fst_progress ret_def stage_calls_append stage_calls_progress)
  have "band 50 50 (percentages (snd (progress cb 50 ''Writing ISO...''))
                    @ percentages (snd (monitor_stderr cb ls)))"
    by (rule band_append [OF band_progress_exact Cons.IH(2)]) simp_all
  moreover have "band 50 50 ([] @ percentages (snd (monitor_stderr cb ls)))"
    using Cons.IH(2) by simp
  ultimately show "band 50 50 (percentages (snd (monitor_stderr cb (l # ls))))"
    by (simp add: snd_bind fst_progress ret_def percentages_append)
qed

lemma write_iso_linux_quiet:
  "stage_calls (snd (write_iso_linux h d i cb)) = []"
  "band 40 70 (percentages (snd (write_iso_linux h d i cb)))"
proof -
  show "stage_calls (snd (write_iso_linux h d i cb)) = []"
    by (simp add: write_iso_linux_def Let_def raise_def snd_bind fst_bind fst_monitor_stderr
        monitor_stderr_quiet stage_calls_append stage_calls_progress
        split: launch.splits sum.splits)
  have m: "band 40 70 (percentages (snd (monitor_stderr cb ls)))" for ls
    by (rule band_widen [OF monitor_stderr_quiet(2)]) simp_all
  have m70: "band 40 70 (percentages (snd (monitor_stderr cb ls))
                         @ percentages (snd (progress cb 70 ''ISO written successfully'')))" for ls
    by (rule band_widen [OF band_append [OF monitor_stderr_quiet(2) band_progress_exact]])
      simp_all
  show "band 40 70 (percentages (snd (write_iso_linux h d i cb)))"
    using m m70
    by (simp add: write_iso_linux_def Let_def raise_def snd_bind fst_bind fst_monitor_stderr
        percentages_append band_Nil
        split: launch.splits sum.splits)
qed

lemma write_iso_quiet:
  "stage_calls (snd (write_iso h d i cb)) = []"
  "band 40 70 (percentages (snd (write_iso h d i cb)))"
  using write_iso_linux_quiet [of h d i cb]
  by (simp_all add: write_iso_def write_iso_windows_def write_iso_macos_def unsupported_def
      raise_def stage_calls_progress band_progress band_Nil)

lemma setup_persistence_quiet:
  "stage_calls (snd (setup_persistence h d p cb)) = []"
  "band 75 75 (percentages (snd (setup_persistence h d p cb)))"
  by (simp_all add: setup_persistence_def setup_persistence_windows_def
      setup_persistence_macos_def setup_persistence_linux_def unsupported_def
      raise_def stage_calls_progress band_progress band_Nil)

lemma install_bootloader_quiet:
  "stage_calls (snd (install_bootloader h d i cb)) = []"
  "band 95 95 (percentages (snd (install_bootloader h d i cb)))"
  by (simp_all add: install_bootloader_def install_bootloader_windows_def
      install_bootloader_macos_def install_bootloader_linux_def unsupported_def
      raise_def stage_calls_progress band_progress band_Nil)

lemma prepare_drive_band: "band 10 15 (percentages (snd (prepare_drive h d p cb)))"
  using prepare_drive_quiet(3) [of h d p cb] by (auto simp add: band_def)

lemma run_stages_band:
  assumes b1: "band 10 15 (percentages (snd (prepare_drive_impl st d p cb)))"
    and b2: "band 40 70 (percentages (snd (write_iso_impl st d i cb)))"
    and b3: "band 75 75 (percentages (snd (setup_persistence_impl st d p cb)))"
    and b4: "band 95 95 (percentages (snd (install_bootloader_impl st d i cb)))"
  shows "band 5 100 (percentages (snd (run_stages st d i p cb)))"
proof -
  let ?P1 = "percentages (snd (progress cb 5 ''Preparing drive...''))
             @ percentages (snd (prepare_drive_impl st d p cb))"
  let ?P2 = "?P1 @ percentages (snd (progress cb 30 ''Writing ISO to drive...''))
             @ percentages (snd (write_iso_impl st d i cb))"
  let ?P3 = "?P2 @ percentages (snd (progress cb 70 ''Setting up persistence...''))
             @ percentages (snd (setup_persistence_impl st d p cb))"
  let ?P4 = "?P3 @ percentages (snd (progress cb 90 ''Installing bootloader...''))
             @ percentages (snd (install_bootloader_impl st d i cb))"
  let ?P5 = "?P4 @ percentages (snd (progress cb 100 ''Bootable drive created successfully!''))"
  have s1: "band 5 15 ?P1"
    by (rule band_append [OF band_progress_exact b1]) simp_all
  have "band 30 70 (percentages (snd (progress cb 30 ''Writing ISO to drive...''))
             @ percentages (snd (write_iso_impl st d i cb)))"
    by (rule band_append [OF band_progress_exact b2]) simp_all
  from band_append [OF s1 this] have s2: "band 5 70 ?P2" by simp
  have "band 70 75 (percentages (snd (progress cb 70 ''Setting up persistence...''))
             @ percentages (snd (setup_persistence_impl st d p cb)))"
    by (rule band_append [OF band_progress_exact b3]) simp_all
  from band_append [OF s2 this] have s3: "band 5 75 ?P3" by simp
  have "band 90 95 (percentages (snd (progress cb 90 ''Installing bootloader...''))
             @ percentages (snd (install_bootloader_impl st d i cb)))"
    by (rule band_append [OF band_progress_exact b4]) simp_all
  from band_append [OF s3 this] have s4: "band 5 95 ?P4" by simp
  have "band 100 100
          (percentages (snd (progress cb 100 ''Bootable drive created successfully!'')))"
    by (rule band_progress_exact)
  from band_append [OF s4 this] have s5: "band 5 100 ?P5" by simp
  have w1: "band 5 100 ?P1" by (rule band_widen [OF s1]) simp_all
  have w2: "band 5 100 ?P2" by (rule band_widen [OF s2]) simp_all
  have w3: "band 5 100 ?P3" by (rule band_widen [OF s3]) simp_all
  have w4: "band 5 100 ?P4" by (rule band_widen [OF s4]) simp_all
  show ?thesis
  proof (cases "prepare_drive_impl st d p cb" rule: unit_res_cases)
    case (err e)
    show ?thesis using w1 by (simp add: run_stages_fail1 [OF err] percentages_append)
  next
    case o1: ok
    show ?thesis
    proof (cases "write_iso_impl st d i cb" rule: unit_res_cases)
      case (err e)
      show ?thesis using w2 by (simp add: run_stages_fail2 [OF o1 err] percentages_append)
    next
      case o2: ok
      show ?thesis
      proof (cases "setup_persistence_impl st d p cb" rule: unit_res_cases)
        case (err e)
        show ?thesis using w3 by (simp add: run_stages_fail3 [OF o1 o2 err] percentages_append)
      next
        case o3: ok
        show ?thesis
        proof (cases "install_bootloader_impl st d i cb" rule: unit_res_cases)
          case (err e)
          show ?thesis
            using w4 by (simp add: run_stages_fail4 [OF o1 o2 o3 err] percentages_append)
        next
          case o4: ok
          show ?thesis
            using s5 by (simp add: run_stages_ok [OF o1 o2 o3 o4] percentages_append)
        qed
      qed
    qed
  qed
qed

lemma platform_strategy_sel:
  "prepare_drive_impl (platform_strategy h) = prepare_drive h"
  "write_iso_impl (platform_strategy h) = write_iso h"
  "setup_persistence_impl (platform_strategy h) = setup_persistence h"
  "install_bootloader_impl (platform_strategy h) = install_bootloader h"
  by (simp_all add: platform_strategy_def)

lemma platform_run_band:
  "band 5 100 (percentages (snd (run_stages (platform_strategy h) d i p cb)))"
  by (rule run_stages_band)
     (simp_all add: platform_strategy_sel prepare_drive_band write_iso_quiet
       setup_persistence_quiet install_bootloader_quiet)

lemma create_bootable_drive_exists:
  assumes "path_exists h i"
  shows "create_bootable_drive h d i p cb =
     (fst (on_error cb (run_stages (platform_strategy h) d i p cb)),
      snd (progress cb 0 ''Starting bootable drive creation...'')
      @ snd (on_error cb (run_stages (platform_strategy h) d i p cb)))"
  using assms by (simp add: create_bootable_drive_def create_with_exists)

lemma create_bootable_drive_missing:
  assumes "\<not> path_exists h i"
  shows "create_bootable_drive h d i p cb =
     (Inl (PyError FileNotFoundError (''ISO file not found: '' @ i)), [])"
  using assms by (simp add: create_bootable_drive_def create_bootable_drive_with_def raise_def)

lemma exception_of_derives: "derives_from_Exception (exc_cls (exception_of err))"
  by (cases err, rename_tac c t, case_tac c) (simp_all add: exception_of_def)

lemma prepare_drive_linux_raises_Exception:
  "fst (prepare_drive_linux h d p cb) = Inl e \<Longrightarrow> derives_from_Exception (exc_cls e)"
  by (auto simp add: prepare_drive_linux_def fst_bind fst_progress fst_unmount_all_Inl
      exception_of_derives split: sum.splits)

lemma get_windows_disk_number_raises_Exception:
  "fst (get_windows_disk_number h d) = Inl e \<Longrightarrow> derives_from_Exception (exc_cls e)"
  by (auto simp add: get_windows_disk_number_def Let_def finally_remove_def fst_bind
      write_file_def run_cmd_def raise_def ret_def exception_of_derives
      split: sum.splits option.splits launch.splits)

lemma prepare_drive_windows_raises_Exception:
  "fst (prepare_drive_windows h d p cb) = Inl e \<Longrightarrow> derives_from_Exception (exc_cls e)"
  by (auto simp add: prepare_drive_windows_def Let_def finally_remove_def fst_bind
      write_file_def run_cmd_def raise_def ret_def fst_progress exception_of_derives
      get_windows_disk_number_raises_Exception
      split: sum.splits option.splits launch.splits if_splits)

lemma prepare_drive_raises_Exception:
  "fst (prepare_drive h d p cb) = Inl e \<Longrightarrow> derives_from_Exception (exc_cls e)"
  by (auto simp add: prepare_drive_def prepare_drive_macos_def unsupported_def raise_def
      fst_progress prepare_drive_linux_raises_Exception prepare_drive_windows_raises_Exception
      split: if_splits)

lemma write_iso_raises_Exception:
  "fst (write_iso h d i cb) = Inl e \<Longrightarrow> derives_from_Exception (exc_cls e)"
  by (auto simp add: write_iso_def write_iso_windows_def write_iso_macos_def
      write_iso_linux_def unsupported_def raise_def fst_progress Let_def fst_bind
      fst_monitor_stderr exception_of_derives
      split: if_splits launch.splits sum.splits)


lemma setup_persistence_raises_Exception:
  "fst (setup_persistence h d p cb) = Inl e \<Longrightarrow> derives_from_Exception (exc_cls e)"
  by (auto simp add: setup_persistence_def setup_persistence_windows_def
      setup_persistence_macos_def setup_persistence_linux_def unsupported_def raise_def
      fst_progress split: if_splits)

lemma install_bootloader_raises_Exception:
  "fst (install_bootloader h d i cb) = Inl e \<Longrightarrow> derives_from_Exception (exc_cls e)"
  by (auto simp add: install_bootloader_def install_bootloader_windows_def
      install_bootloader_macos_def install_bootloader_linux_def unsupported_def raise_def
      fst_progress split: if_splits)

lemma run_stages_raises:
  assumes "fst (run_stages st d i p cb) = Inl e"
  shows "fst (prepare_drive_impl st d p cb) = Inl e
       \<or> fst (write_iso_impl st d i cb) = Inl e
       \<or> fst (setup_persistence_impl st d p cb) = Inl e
       \<or> fst (install_bootloader_impl st d i cb) = Inl e"
  using assms
  by (auto simp add: run_stages_def fst_bind fst_progress fst_invoke ret_def
      split: sum.splits)

lemma platform_run_raises_Exception:
  assumes "fst (run_stages (platform_strategy h) d i p cb) = Inl e"
  shows "derives_from_Exception (exc_cls e)"
  using run_stages_raises [OF assms]
  by (auto simp add: platform_strategy_sel dest: prepare_drive_raises_Exception
      write_iso_raises_Exception setup_persistence_raises_Exception
      install_bootloader_raises_Exception)

lemma filter_popen_except_clause: "filter is_popen (except_clause cb e) = []"
  by (simp add: except_clause_def progress_def)

lemma percentages_except_clause:
  "percentages (except_clause cb e)
     = (if cb \<and> derives_from_Exception (exc_cls e) then [0] else [])"
  by (simp add: except_clause_def progress_def)

text \<open>
  Claim C8, as stated, fails. On a host where \<^verbatim>\<open>lsblk\<close> cannot be started,
  \<^verbatim>\<open>subprocess.run\<close> raises \<^verbatim>\<open>FileNotFoundError\<close>, which is not the
  \<^verbatim>\<open>CalledProcessError\<close> that \<^verbatim>\<open>_get_linux_partitions\<close> catches: it leaves
  \<^verbatim>\<open>_unmount_all_partitions\<close> and ends the run of the pipeline.
\<close>

theorem lsblk_missing_counterexample:
  "fst (unmount_all_partitions linux_no_lsblk ''/dev/sdb'')
     = Inl (PyError FileNotFoundError ''[Errno 2] No such file or directory'')
   \<and> fst (create_bootable_drive linux_no_lsblk ''/dev/sdb'' ''ubuntu.iso'' 8 True)
     = Inl (PyError FileNotFoundError ''[Errno 2] No such file or directory'')"
  by (simp add: linux_no_lsblk_def linux_host_def unmount_all_partitions_def
      get_linux_partitions_def bind_def create_bootable_drive_def create_bootable_drive_with_def
      run_stages_def on_error_def except_clause_def progress_def invoke_def
      platform_strategy_def prepare_drive_def prepare_drive_linux_def exception_of_def)

text \<open>
  Claim C8, amended. \<^verbatim>\<open>_unmount_all_partitions\<close> raises exactly when the \<^verbatim>\<open>lsblk\<close>
  process cannot be started, and then with the exception of \<^verbatim>\<open>subprocess.run\<close>. Once
  \<^verbatim>\<open>lsblk\<close> has run, whatever its exit status and whatever every \<^verbatim>\<open>umount\<close> does
  (an exit status other than 0, a process that cannot be started), the method returns
  normally.
\<close>

theorem unmount_failures_are_absorbed:
  "((fst (unmount_all_partitions h device_path) = Inl e)
      = (\<exists>err. subprocess_run h [''lsblk'', ''-no'', ''NAME'', device_path] = CannotStart err
               \<and> e = exception_of err))
   \<and> (\<forall>result. subprocess_run h [''lsblk'', ''-no'', ''NAME'', device_path] = Started result
         \<longrightarrow> fst (unmount_all_partitions h device_path) = Inr ())"
proof -
  have "fst (unmount_all_partitions h device_path) = Inr ()"
    if "subprocess_run h [''lsblk'', ''-no'', ''NAME'', device_path] = Started result"
    for result
  proof (cases "unmount_all_partitions h device_path" rule: unit_res_cases)
    case ok
    then show ?thesis .
  next
    case (err e')
    with that show ?thesis by (simp add: fst_unmount_all_Inl)
  qed
  then show ?thesis by (simp add: fst_unmount_all_Inl)
qed

theorem unmount_failures_are_absorbed_witness:
  "subprocess_run linux_host [''umount'', ''/dev/sdb1'']
     = Started (Completed 32 [] ''umount: /dev/sdb1: not mounted.'')
   \<and> unmount_all_partitions linux_host ''/dev/sdb''
     = (Inr (), [Run [''lsblk'', ''-no'', ''NAME'', ''/dev/sdb''], Run [''umount'', ''/dev/sdb1'']])"
proof -
  have lsblk: "subprocess_run linux_host [''lsblk'', ''-no'', ''NAME'', ''/dev/sdb'']
     = Started (Completed 0 (''sdb'' @ nl @ ''sdb1'' @ nl) [])"
    by (simp add: linux_host_def linux_run_def)
  have umount: "subprocess_run linux_host [''umount'', ''/dev/sdb1'']
     = Started (Completed 32 [] ''umount: /dev/sdb1: not mounted.'')"
    by (simp add: linux_host_def linux_run_def)
  have parts: "fst (get_linux_partitions linux_host ''/dev/sdb'') = Inr [''/dev/sdb1'']"
    by (simp add: get_linux_partitions_def lsblk Let_def strip_def isspace_def nl_def)
  have tr: "snd (unmount_all_partitions linux_host ''/dev/sdb'')
     = [Run [''lsblk'', ''-no'', ''NAME'', ''/dev/sdb''], Run [''umount'', ''/dev/sdb1'']]"
    by (simp add: snd_unmount_all parts)
  from unmount_failures_are_absorbed [of linux_host "''/dev/sdb''"] lsblk
  have "fst (unmount_all_partitions linux_host ''/dev/sdb'') = Inr ()"
    by blast
  with tr umount show ?thesis by (simp add: prod_eq_iff)
qed

text \<open>
  Claim C5. On Linux, when \<^verbatim>\<open>pkexec\<close> or \<^verbatim>\<open>dd\<close> is not found, the write stage
  raises an \<^verbatim>\<open>EnvironmentError\<close> (the source's error for an unavailable tool) whose
  text starts with the name of the missing tool, and it records no event: the copy
  process is not started. No run on such a host ever starts the copy process, and a run
  whose image exists and whose first stage succeeds ends with that error after entering
  the stages Prepare and WriteImage only.
\<close>

theorem missing_copy_tool_is_fatal:
  assumes "system h = ''Linux''"
    and "\<not> which h ''pkexec'' \<or> \<not> which h ''dd''"
  shows "write_iso h device_path iso_path cb
           = (Inl (PyError EnvironmentError
                ((if \<not> which h ''pkexec'' then ''pkexec'' else ''dd'')
                 @ '' is not installed. Please install it to continue.'')), [])
       \<and> filter is_popen
            (snd (create_bootable_drive h device_path iso_path persistence_size cb)) = []
       \<and> (path_exists h iso_path
            \<and> fst (prepare_drive h device_path persistence_size cb) = Inr ()
          \<longrightarrow> fst (create_bootable_drive h device_path iso_path persistence_size cb)
                = Inl (PyError EnvironmentError
                    ((if \<not> which h ''pkexec'' then ''pkexec'' else ''dd'')
                     @ '' is not installed. Please install it to continue.''))
              \<and> stage_calls
                  (snd (create_bootable_drive h device_path iso_path persistence_size cb))
                = [Prepare, WriteImage])"
proof -
  let ?e = "PyError EnvironmentError
                ((if \<not> which h ''pkexec'' then ''pkexec'' else ''dd'')
                 @ '' is not installed. Please install it to continue.'')"
  let ?st = "platform_strategy h"
  have w: "write_iso h device_path iso_path cb = (Inl ?e, [])"
    using assms by (auto simp add: write_iso_def write_iso_linux_def raise_def)
  then have w': "fst (write_iso_impl ?st device_path iso_path cb) = Inl ?e"
    and w'': "snd (write_iso_impl ?st device_path iso_path cb) = []"
    by (simp_all add: platform_strategy_sel)
  have nopopen: "filter is_popen
            (snd (create_bootable_drive h device_path iso_path persistence_size cb)) = []"
  proof (cases "path_exists h iso_path")
    case False
    then show ?thesis by (simp add: create_bootable_drive_missing)
  next
    case True
    show ?thesis
    proof (cases "prepare_drive_impl ?st device_path persistence_size cb" rule: unit_res_cases)
      case (err e)
      show ?thesis
        by (simp add: create_bootable_drive_exists [OF True] run_stages_fail1 [OF err]
            on_error_Inl filter_popen_progress filter_popen_except_clause
            platform_strategy_sel prepare_drive_quiet)
    next
      case ok
      show ?thesis
        by (simp add: create_bootable_drive_exists [OF True] run_stages_fail2 [OF ok w'] w
            on_error_Inl filter_popen_progress filter_popen_except_clause
            platform_strategy_sel prepare_drive_quiet)
    qed
  qed
  have run: "fst (create_bootable_drive h device_path iso_path persistence_size cb) = Inl ?e
      \<and> stage_calls (snd (create_bootable_drive h device_path iso_path persistence_size cb))
          = [Prepare, WriteImage]"
    if ex: "path_exists h iso_path"
      and ok: "fst (prepare_drive h device_path persistence_size cb) = Inr ()"
  proof -
    from ok have ok': "fst (prepare_drive_impl ?st device_path persistence_size cb) = Inr ()"
      by (simp add: platform_strategy_sel)
    show ?thesis
      by (simp add: create_bootable_drive_exists [OF ex] run_stages_fail2 [OF ok' w'] w
          on_error_Inl stage_calls_append stage_calls_progress stage_calls_except_clause
          platform_strategy_sel prepare_drive_quiet)
  qed
  from w nopopen run show ?thesis by blast
qed

lemma linux_host_prepare:
  "prepare_drive linux_host ''/dev/sdb'' p cb
     = (Inr (), [Run [''lsblk'', ''-no'', ''NAME'', ''/dev/sdb''], Run [''umount'', ''/dev/sdb1'']]
                @ snd (progress cb 15 ''Formatting drive on Linux...''))"
  by (simp add: prepare_drive_def prepare_drive_linux_def unmount_all_partitions_def
      get_linux_partitions_def unmount_partition_def except_pass_def run_cmd_def bind_def
      ret_def progress_def Let_def strip_def isspace_def nl_def linux_host_def linux_run_def)

lemma linux_no_pkexec_prepare:
  "prepare_drive linux_no_pkexec ''/dev/sdb'' p cb
     = (Inr (), [Run [''lsblk'', ''-no'', ''NAME'', ''/dev/sdb''], Run [''umount'', ''/dev/sdb1'']]
                @ snd (progress cb 15 ''Formatting drive on Linux...''))"
  by (simp add: prepare_drive_def prepare_drive_linux_def unmount_all_partitions_def
      get_linux_partitions_def unmount_partition_def except_pass_def run_cmd_def bind_def
      ret_def progress_def Let_def strip_def isspace_def nl_def linux_no_pkexec_def
      linux_host_def linux_run_def)

theorem missing_copy_tool_is_fatal_witness:
  "system linux_no_pkexec = ''Linux''
   \<and> \<not> which linux_no_pkexec ''pkexec''
   \<and> write_iso linux_no_pkexec ''/dev/sdb'' ''ubuntu.iso'' True
       = (Inl (PyError EnvironmentError
            ''pkexec is not installed. Please install it to continue.''), [])
   \<and> fst (create_bootable_drive linux_no_pkexec ''/dev/sdb'' ''ubuntu.iso'' 8 True)
       = Inl (PyError EnvironmentError
            ''pkexec is not installed. Please install it to continue.'')
   \<and> stage_calls (snd (create_bootable_drive linux_no_pkexec ''/dev/sdb'' ''ubuntu.iso'' 8 True))
       = [Prepare, WriteImage]"
proof -
  have sys: "system linux_no_pkexec = ''Linux''"
    by (simp add: linux_no_pkexec_def linux_host_def)
  have tool: "\<not> which linux_no_pkexec ''pkexec''"
    by (simp add: linux_no_pkexec_def linux_host_def)
  then have tools: "\<not> which linux_no_pkexec ''pkexec'' \<or> \<not> which linux_no_pkexec ''dd''"
    by simp
  have ex: "path_exists linux_no_pkexec ''ubuntu.iso''"
    by (simp add: linux_no_pkexec_def linux_host_def)
  have prep: "fst (prepare_drive linux_no_pkexec ''/dev/sdb'' 8 True) = Inr ()"
    by (simp add: linux_no_pkexec_prepare)
  show ?thesis
    using missing_copy_tool_is_fatal [OF sys tools, of "''/dev/sdb''" "''ubuntu.iso''" True 8]
      sys tool ex prep
    by simp
qed

lemma linux_host_write:
  "write_iso linux_host ''/dev/sdb'' ''ubuntu.iso'' True
     = (Inr (), [Popen (dd_command ''/dev/sdb'' ''ubuntu.iso''),
                 Progress 50 ''Writing ISO...'', Progress 70 ''ISO written successfully''])"
  by (simp add: write_iso_def write_iso_linux_def linux_host_def Let_def bind_def
      ret_def progress_def nl_def)

lemma linux_host_run:
  "create_bootable_drive linux_host ''/dev/sdb'' ''ubuntu.iso'' p True
     = (Inr True,
        [Progress 0 ''Starting bootable drive creation...'',
         Progress 5 ''Preparing drive...'',
         Call Prepare,
         Run [''lsblk'', ''-no'', ''NAME'', ''/dev/sdb''],
         Run [''umount'', ''/dev/sdb1''],
         Progress 15 ''Formatting drive on Linux...'',
         Progress 30 ''Writing ISO to drive...'',
         Call WriteImage,
         Popen (dd_command ''/dev/sdb'' ''ubuntu.iso''),
         Progress 50 ''Writing ISO...'',
         Progress 70 ''ISO written successfully'',
         Progress 70 ''Setting up persistence...'',
         Call ConfigurePersistence,
         Progress 75 ''Setting up persistence on Linux...'',
         Progress 90 ''Installing bootloader...'',
         Call InstallBootloader,
         Progress 95 ''Installing bootloader on Linux...'',
         Progress 100 ''Bootable drive created successfully!''])"
proof -
  have ex: "path_exists linux_host ''ubuntu.iso''"
    by (simp add: linux_host_def)
  have sys: "system linux_host = ''Linux''"
    by (simp add: linux_host_def)
  have s3: "setup_persistence linux_host ''/dev/sdb'' p True
      = (Inr (), [Progress 75 ''Setting up persistence on Linux...''])"
    by (simp add: setup_persistence_def setup_persistence_linux_def sys progress_def)
  have s4: "install_bootloader linux_host ''/dev/sdb'' ''ubuntu.iso'' True
      = (Inr (), [Progress 95 ''Installing bootloader on Linux...''])"
    by (simp add: install_bootloader_def install_bootloader_linux_def sys progress_def)
  have "run_stages (platform_strategy linux_host) ''/dev/sdb'' ''ubuntu.iso'' p True
     = (Inr True,
        [Progress 5 ''Preparing drive...'',
         Call Prepare,
         Run [''lsblk'', ''-no'', ''NAME'', ''/dev/sdb''],
         Run [''umount'', ''/dev/sdb1''],
         Progress 15 ''Formatting drive on Linux...'',
         Progress 30 ''Writing ISO to drive...'',
         Call WriteImage,
         Popen (dd_command ''/dev/sdb'' ''ubuntu.iso''),
         Progress 50 ''Writing ISO...'',
         Progress 70 ''ISO written successfully'',
         Progress 70 ''Setting up persistence...'',
         Call ConfigurePersistence,
         Progress 75 ''Setting up persistence on Linux...'',
         Progress 90 ''Installing bootloader...'',
         Call InstallBootloader,
         Progress 95 ''Installing bootloader on Linux...'',
         Progress 100 ''Bootable drive created successfully!''])"
    by (subst run_stages_ok)
       (simp_all add: platform_strategy_sel linux_host_prepare linux_host_write s3 s4
         progress_def)
  then show ?thesis
    by (simp add: create_bootable_drive_exists [OF ex] on_error_Inr progress_def)
qed

text \<open>
  Claim C1, as stated, fails. On a Linux host where every tool works, requests with the
  persistence sizes 0, -1 and 129 run to the end and return \<^verbatim>\<open>True\<close>; with the size
  0 the raw copy onto the device is among the events.
\<close>

theorem out_of_range_size_is_accepted:
  "fst (create_bootable_drive linux_host ''/dev/sdb'' ''ubuntu.iso'' 0 True) = Inr True
   \<and> Popen (dd_command ''/dev/sdb'' ''ubuntu.iso'')
       \<in> set (snd (create_bootable_drive linux_host ''/dev/sdb'' ''ubuntu.iso'' 0 True))
   \<and> fst (create_bootable_drive linux_host ''/dev/sdb'' ''ubuntu.iso'' (- 1) True) = Inr True
   \<and> fst (create_bootable_drive linux_host ''/dev/sdb'' ''ubuntu.iso'' 129 True) = Inr True"
  by (simp add: linux_host_run)

lemma run_stages_starts_with_prepare:
  "\<exists>rest. snd (run_stages st d i p cb)
     = snd (progress cb 5 ''Preparing drive...'')
       @ Call Prepare # snd (prepare_drive_impl st d p cb) @ rest"
proof (cases "prepare_drive_impl st d p cb" rule: unit_res_cases)
  case (err e)
  show ?thesis by (simp add: run_stages_fail1 [OF err])
next
  case o1: ok
  show ?thesis
  proof (cases "write_iso_impl st d i cb" rule: unit_res_cases)
    case (err e)
    show ?thesis by (simp add: run_stages_fail2 [OF o1 err])
  next
    case o2: ok
    show ?thesis
    proof (cases "setup_persistence_impl st d p cb" rule: unit_res_cases)
      case (err e)
      show ?thesis by (simp add: run_stages_fail3 [OF o1 o2 err])
    next
      case o3: ok
      show ?thesis
      proof (cases "install_bootloader_impl st d i cb" rule: unit_res_cases)
        case (err e)
        show ?thesis by (simp add: run_stages_fail4 [OF o1 o2 o3 err])
      next
        case o4: ok
        show ?thesis by (simp add: run_stages_ok [OF o1 o2 o3 o4])
      qed
    qed
  qed
qed

text \<open>
  Claim C1, amended. \<^verbatim>\<open>create_bootable_drive\<close> does not look at the range of the
  persistence size. For every size, a request whose image path does not exist fails with
  the \<^verbatim>\<open>FileNotFoundError\<close> of the validation and records no event, and a request
  whose image path exists passes the validation and enters stage 1 with the size as it was
  given.
\<close>

theorem persistence_size_is_not_validated:
  "(\<not> path_exists h iso_path \<longrightarrow>
      create_bootable_drive h device_path iso_path persistence_size cb
        = (Inl (PyError FileNotFoundError (''ISO file not found: '' @ iso_path)), []))
   \<and> (path_exists h iso_path \<longrightarrow>
        (\<exists>rest. snd (create_bootable_drive h device_path iso_path persistence_size cb)
           = snd (progress cb 0 ''Starting bootable drive creation...'')
             @ snd (progress cb 5 ''Preparing drive...'')
             @ Call Prepare # snd (prepare_drive h device_path persistence_size cb) @ rest))"
proof -
  have "\<exists>rest. snd (create_bootable_drive h device_path iso_path persistence_size cb)
           = snd (progress cb 0 ''Starting bootable drive creation...'')
             @ snd (progress cb 5 ''Preparing drive...'')
             @ Call Prepare # snd (prepare_drive h device_path persistence_size cb) @ rest"
    if ex: "path_exists h iso_path"
  proof -
    let ?RS = "run_stages (platform_strategy h) device_path iso_path persistence_size cb"
    from run_stages_starts_with_prepare [of "platform_strategy h" device_path iso_path
        persistence_size cb]
    obtain rest where r: "snd ?RS = snd (progress cb 5 ''Preparing drive...'')
       @ Call Prepare # snd (prepare_drive h device_path persistence_size cb) @ rest"
      by (auto simp add: platform_strategy_sel)
    have "\<exists>rest'. snd (on_error cb ?RS) = snd ?RS @ rest'"
      by (cases "fst ?RS") (simp_all add: on_error_Inl on_error_Inr)
    then obtain rest' where "snd (on_error cb ?RS) = snd ?RS @ rest'" ..
    with r have "snd (create_bootable_drive h device_path iso_path persistence_size cb)
           = snd (progress cb 0 ''Starting bootable drive creation...'')
             @ snd (progress cb 5 ''Preparing drive...'')
             @ Call Prepare # snd (prepare_drive h device_path persistence_size cb) @ (rest @ rest')"
      by (simp add: create_bootable_drive_exists [OF ex])
    then show ?thesis by blast
  qed
  then show ?thesis by (simp add: create_bootable_drive_missing)
qed

theorem persistence_size_is_not_validated_witness:
  "path_exists linux_host ''ubuntu.iso''
   \<and> \<not> path_exists linux_host ''missing.iso''
   \<and> create_bootable_drive linux_host ''/dev/sdb'' ''missing.iso'' 129 True
       = (Inl (PyError FileNotFoundError ''ISO file not found: missing.iso''), [])
   \<and> (\<exists>rest. snd (create_bootable_drive linux_host ''/dev/sdb'' ''ubuntu.iso'' 129 True)
       = [Progress 0 ''Starting bootable drive creation...'',
          Progress 5 ''Preparing drive...'',
          Call Prepare,
          Run [''lsblk'', ''-no'', ''NAME'', ''/dev/sdb''],
          Run [''umount'', ''/dev/sdb1''],
          Progress 15 ''Formatting drive on Linux...''] @ rest)"
proof -
  have ex: "path_exists linux_host ''ubuntu.iso''"
    and missing: "\<not> path_exists linux_host ''missing.iso''"
    by (simp_all add: linux_host_def)
  show ?thesis
    using ex missing
      persistence_size_is_not_validated [of linux_host "''missing.iso''" "''/dev/sdb''" 129 True]
      persistence_size_is_not_validated [of linux_host "''ubuntu.iso''" "''/dev/sdb''" 129 True]
    by (simp add: linux_host_prepare progress_def)
qed

lemma linux_no_pkexec_run:
  "create_bootable_drive linux_no_pkexec ''/dev/sdb'' ''ubuntu.iso'' p True
     = (Inl (PyError EnvironmentError
          ''pkexec is not installed. Please install it to continue.''),
        [Progress 0 ''Starting bootable drive creation...'',
         Progress 5 ''Preparing drive...'',
         Call Prepare,
         Run [''lsblk'', ''-no'', ''NAME'', ''/dev/sdb''],
         Run [''umount'', ''/dev/sdb1''],
         Progress 15 ''Formatting drive on Linux...'',
         Progress 30 ''Writing ISO to drive...'',
         Call WriteImage,
         Progress 0 ''Error: pkexec is not installed. Please install it to continue.''])"
proof -
  have ex: "path_exists linux_no_pkexec ''ubuntu.iso''"
    by (simp add: linux_no_pkexec_def linux_host_def)
  have o1: "fst (prepare_drive_impl (platform_strategy linux_no_pkexec) ''/dev/sdb'' p True)
      = Inr ()"
    by (simp add: platform_strategy_sel linux_no_pkexec_prepare)
  have w: "write_iso linux_no_pkexec ''/dev/sdb'' ''ubuntu.iso'' True
      = (Inl (PyError EnvironmentError
          ''pkexec is not installed. Please install it to continue.''), [])"
    by (simp add: write_iso_def write_iso_linux_def raise_def linux_no_pkexec_def linux_host_def)
  then have f2: "fst (write_iso_impl (platform_strategy linux_no_pkexec) ''/dev/sdb''
      ''ubuntu.iso'' True)
      = Inl (PyError EnvironmentError
          ''pkexec is not installed. Please install it to continue.'')"
    by (simp add: platform_strategy_sel)
  show ?thesis
    by (simp add: create_bootable_drive_exists [OF ex] run_stages_fail2 [OF o1 f2] w
        on_error_Inl except_clause_def platform_strategy_sel linux_no_pkexec_prepare
        progress_def)
qed

text \<open>
  Claim C2, as stated, fails. On a Linux host without \<^verbatim>\<open>pkexec\<close> the percentages
  passed to the callback are 0, 5, 15, 30 and then the 0 of the error event.
\<close>

theorem error_event_resets_percentage:
  "\<not> sorted (percentages
       (snd (create_bootable_drive linux_no_pkexec ''/dev/sdb'' ''ubuntu.iso'' 8 True)))"
  by (simp add: linux_no_pkexec_run)

text \<open>
  Claim C2, amended. In a run that returns \<^verbatim>\<open>True\<close> the percentages passed to the
  callback are non-decreasing. In a run that raises, the percentages before the terminal
  error event are non-decreasing, and the error event (emitted when a callback was passed
  and the image exists) carries the percentage 0.
\<close>

theorem percentages_nondecreasing_until_error:
  "(fst (create_bootable_drive h device_path iso_path persistence_size cb) = Inr True \<longrightarrow>
      sorted (percentages
        (snd (create_bootable_drive h device_path iso_path persistence_size cb))))
   \<and> (\<forall>e. fst (create_bootable_drive h device_path iso_path persistence_size cb) = Inl e \<longrightarrow>
        (\<exists>pre. sorted pre
           \<and> percentages (snd (create_bootable_drive h device_path iso_path persistence_size cb))
               = pre @ (if cb \<and> path_exists h iso_path then [0] else [])))"
proof (cases "path_exists h iso_path")
  case False
  have "sorted ([]::int list)" by simp
  then show ?thesis
    using False by (simp add: create_bootable_drive_missing)
next
  case True
  let ?RS = "run_stages (platform_strategy h) device_path iso_path persistence_size cb"
  let ?pre = "percentages (snd (progress cb 0 ''Starting bootable drive creation...''))
              @ percentages (snd ?RS)"
  have "band 0 100 ?pre"
    by (rule band_append [OF band_progress_exact platform_run_band]) simp_all
  then have pre: "sorted ?pre"
    by (simp add: band_def)
  show ?thesis
  proof (cases "fst ?RS")
    case (Inr b)
    then show ?thesis
      using pre
      by (simp add: create_bootable_drive_exists [OF True] on_error_Inr percentages_append)
  next
    case (Inl e)
    have "percentages (snd (create_bootable_drive h device_path iso_path persistence_size cb))
        = ?pre @ (if cb \<and> path_exists h iso_path then [0] else [])"
      using True platform_run_raises_Exception [OF Inl]
      by (simp add: create_bootable_drive_exists [OF True] on_error_Inl [OF Inl]
          percentages_append percentages_progress percentages_except_clause)
    with pre have "\<exists>pre. sorted pre
           \<and> percentages (snd (create_bootable_drive h device_path iso_path persistence_size cb))
               = pre @ (if cb \<and> path_exists h iso_path then [0] else [])"
      by blast
    then show ?thesis
      using Inl by (simp add: create_bootable_drive_exists [OF True] on_error_Inl [OF Inl])
  qed
qed

theorem percentages_nondecreasing_until_error_witness:
  "fst (create_bootable_drive linux_host ''/dev/sdb'' ''ubuntu.iso'' 8 True) = Inr True
   \<and> percentages (snd (create_bootable_drive linux_host ''/dev/sdb'' ''ubuntu.iso'' 8 True))
       = [0, 5, 15, 30, 50, 70, 70, 75, 90, 95, 100]
   \<and> sorted (percentages
       (snd (create_bootable_drive linux_host ''/dev/sdb'' ''ubuntu.iso'' 8 True)))
   \<and> fst (create_bootable_drive linux_no_pkexec ''/dev/sdb'' ''ubuntu.iso'' 8 True)
       = Inl (PyError EnvironmentError
            ''pkexec is not installed. Please install it to continue.'')
   \<and> (\<exists>pre. sorted pre
         \<and> percentages
             (snd (create_bootable_drive linux_no_pkexec ''/dev/sdb'' ''ubuntu.iso'' 8 True))
           = pre @ [0])"
proof -
  have ok: "fst (create_bootable_drive linux_host ''/dev/sdb'' ''ubuntu.iso'' 8 True) = Inr True"
    by (simp add: linux_host_run)
  have pcts: "percentages (snd (create_bootable_drive linux_host ''/dev/sdb'' ''ubuntu.iso'' 8 True))
       = [0, 5, 15, 30, 50, 70, 70, 75, 90, 95, 100]"
    by (simp add: linux_host_run)
  have err: "fst (create_bootable_drive linux_no_pkexec ''/dev/sdb'' ''ubuntu.iso'' 8 True)
       = Inl (PyError EnvironmentError
            ''pkexec is not installed. Please install it to continue.'')"
    by (simp add: linux_no_pkexec_run)
  have ex: "path_exists linux_no_pkexec ''ubuntu.iso''"
    by (simp add: linux_no_pkexec_def linux_host_def)
  from percentages_nondecreasing_until_error
         [of linux_host "''/dev/sdb''" "''ubuntu.iso''" 8 True] ok
  have s: "sorted (percentages
       (snd (create_bootable_drive linux_host ''/dev/sdb'' ''ubuntu.iso'' 8 True)))"
    by blast
  from percentages_nondecreasing_until_error
         [of linux_no_pkexec "''/dev/sdb''" "''ubuntu.iso''" 8 True] err ex
  have "\<exists>pre. sorted pre
         \<and> percentages
             (snd (create_bootable_drive linux_no_pkexec ''/dev/sdb'' ''ubuntu.iso'' 8 True))
           = pre @ [0]"
    by simp
  with ok pcts s err show ?thesis by blast
qed

lemma filter_is_percent_none:
  "n \<notin> set (percentages evs) \<Longrightarrow> filter (is_percent n) evs = []"
  by (induction evs rule: percentages.induct) simp_all

lemma band_below: "band lo hi ps \<Longrightarrow> hi < n \<Longrightarrow> n \<notin> set ps"
  by (auto simp add: band_def)

lemma platform_no_100:
  "filter (is_percent 100) (snd (prepare_drive h d p cb)) = []"
  "filter (is_percent 100) (snd (write_iso h d i cb)) = []"
  "filter (is_percent 100) (snd (setup_persistence h d p cb)) = []"
  "filter (is_percent 100) (snd (install_bootloader h d i cb)) = []"
  by (rule filter_is_percent_none, rule band_below, rule prepare_drive_band, simp)
     (rule filter_is_percent_none, rule band_below, rule write_iso_quiet, simp,
      rule filter_is_percent_none, rule band_below, rule setup_persistence_quiet, simp,
      rule filter_is_percent_none, rule band_below, rule install_bootloader_quiet, simp)

lemma os_path_join_inject: "(os_path_join dir a = os_path_join dir b) = (a = b)"
  by (simp add: os_path_join_def)

lemma get_windows_disk_number_unresolved:
  assumes "open_w h (os_path_join (gettempdir h) ''diskpart_get_disk.txt'') = None"
    and "subprocess_run h
           [''diskpart'', ''/s'', os_path_join (gettempdir h) ''diskpart_get_disk.txt'']
         = Started result"
    and "re_search_disk (stdout result) = None"
  shows "get_windows_disk_number h d =
     (Inl (PyError RuntimeError (''Could not determine disk number for '' @ d)),
      [WriteFile (os_path_join (gettempdir h) ''diskpart_get_disk.txt'')
         (''select volume '' @ rstrip [CHR '':'', backslash] d @ nl @ ''detail disk'' @ nl
          @ ''exit'' @ nl),
       Run [''diskpart'', ''/s'', os_path_join (gettempdir h) ''diskpart_get_disk.txt''],
       RemoveFile (os_path_join (gettempdir h) ''diskpart_get_disk.txt'')])"
  using assms
  by (simp add: get_windows_disk_number_def Let_def finally_remove_def bind_def write_file_def
      run_cmd_def raise_def)

lemma get_windows_disk_number_events:
  "set (snd (get_windows_disk_number h d))
     \<subseteq> {WriteFile (os_path_join (gettempdir h) ''diskpart_get_disk.txt'')
           (''select volume '' @ rstrip [CHR '':'', backslash] d @ nl @ ''detail disk'' @ nl
            @ ''exit'' @ nl),
         Run [''diskpart'', ''/s'', os_path_join (gettempdir h) ''diskpart_get_disk.txt''],
         RemoveFile (os_path_join (gettempdir h) ''diskpart_get_disk.txt'')}"
  by (simp add: get_windows_disk_number_def Let_def finally_remove_def bind_def write_file_def
      run_cmd_def raise_def ret_def split: option.splits launch.splits)

lemma get_windows_disk_number_Inr:
  assumes "fst (get_windows_disk_number h d) = Inr disk"
  shows "\<exists>result. subprocess_run h
           [''diskpart'', ''/s'', os_path_join (gettempdir h) ''diskpart_get_disk.txt'']
             = Started result
         \<and> re_search_disk (stdout result) = Some disk
         \<and> snd (get_windows_disk_number h d)
           = [WriteFile (os_path_join (gettempdir h) ''diskpart_get_disk.txt'')
                (''select volume '' @ rstrip [CHR '':'', backslash] d @ nl @ ''detail disk'' @ nl
                 @ ''exit'' @ nl),
              Run [''diskpart'', ''/s'', os_path_join (gettempdir h) ''diskpart_get_disk.txt''],
              RemoveFile (os_path_join (gettempdir h) ''diskpart_get_disk.txt'')]"
  using assms
  by (auto simp add: get_windows_disk_number_def Let_def finally_remove_def bind_def write_file_def
      run_cmd_def raise_def ret_def split: option.splits launch.splits)

lemma prepare_drive_windows_script_run:
  assumes "Run [''diskpart'', ''/s'', os_path_join (gettempdir h) ''diskpart_script.txt'']
             \<in> set (snd (prepare_drive_windows h d p cb))"
  shows "\<exists>result disk. subprocess_run h
           [''diskpart'', ''/s'', os_path_join (gettempdir h) ''diskpart_get_disk.txt'']
             = Started result
         \<and> re_search_disk (stdout result) = Some disk
         \<and> snd (prepare_drive_windows h d p cb)
           = [WriteFile (os_path_join (gettempdir h) ''diskpart_get_disk.txt'')
                (''select volume '' @ rstrip [CHR '':'', backslash] d @ nl @ ''detail disk'' @ nl
                 @ ''exit'' @ nl),
              Run [''diskpart'', ''/s'', os_path_join (gettempdir h) ''diskpart_get_disk.txt''],
              RemoveFile (os_path_join (gettempdir h) ''diskpart_get_disk.txt''),
              WriteFile (os_path_join (gettempdir h) ''diskpart_script.txt'')
                (diskpart_script disk p)]
             @ snd (progress cb 10 ''Formatting drive...'')
             @ [Run [''diskpart'', ''/s'', os_path_join (gettempdir h) ''diskpart_script.txt''],
                RemoveFile (os_path_join (gettempdir h) ''diskpart_script.txt'')]"
proof (cases "fst (get_windows_disk_number h d)")
  case (Inl e)
  then have "snd (prepare_drive_windows h d p cb) = snd (get_windows_disk_number h d)"
    by (simp add: prepare_drive_windows_def bind_Inl)
  with assms get_windows_disk_number_events [of h d] have False
    by (auto simp add: os_path_join_inject)
  then show ?thesis ..
next
  case (Inr disk)
  from get_windows_disk_number_Inr [OF Inr] obtain result where
    q: "subprocess_run h
           [''diskpart'', ''/s'', os_path_join (gettempdir h) ''diskpart_get_disk.txt'']
             = Started result"
    and m: "re_search_disk (stdout result) = Some disk"
    and g: "snd (get_windows_disk_number h d)
           = [WriteFile (os_path_join (gettempdir h) ''diskpart_get_disk.txt'')
                (''select volume '' @ rstrip [CHR '':'', backslash] d @ nl @ ''detail disk'' @ nl
                 @ ''exit'' @ nl),
              Run [''diskpart'', ''/s'', os_path_join (gettempdir h) ''diskpart_get_disk.txt''],
              RemoveFile (os_path_join (gettempdir h) ''diskpart_get_disk.txt'')]"
    by blast
  have "snd (prepare_drive_windows h d p cb)
           = snd (get_windows_disk_number h d)
             @ WriteFile (os_path_join (gettempdir h) ''diskpart_script.txt'')
                (diskpart_script disk p)
             # snd (progress cb 10 ''Formatting drive...'')
             @ [Run [''diskpart'', ''/s'', os_path_join (gettempdir h) ''diskpart_script.txt''],
                RemoveFile (os_path_join (gettempdir h) ''diskpart_script.txt'')]"
    using assms Inr g
    by (simp add: prepare_drive_windows_def bind_Inr Let_def finally_remove_def snd_bind fst_bind
        write_file_def run_cmd_def raise_def ret_def fst_progress os_path_join_inject
        split: option.splits launch.splits sum.splits if_splits)
  with q m g show ?thesis by simp
qed

lemma run_event_origin:
  assumes "Run cmd \<in> set (snd (create_bootable_drive_with st ex d i p cb))"
  shows "Run cmd \<in> set (snd (prepare_drive_impl st d p cb))
       \<or> Run cmd \<in> set (snd (write_iso_impl st d i cb))
       \<or> Run cmd \<in> set (snd (setup_persistence_impl st d p cb))
       \<or> Run cmd \<in> set (snd (install_bootloader_impl st d i cb))"
  using assms
  by (auto simp add: create_bootable_drive_with_def raise_def run_stages_def on_error_def
      except_clause_def snd_bind fst_bind fst_progress fst_invoke snd_invoke ret_def
      progress_def split: sum.splits if_splits)

text \<open>
  Claim C7. On Windows, with the image present: when the detail query runs and its output
  has no match for \<^verbatim>\<open>Disk (\d+)\<close>, the run raises the \<^verbatim>\<open>RuntimeError\<close>
  "Could not determine disk number" (the source's error for an unresolved device) having
  written and run the query script only; the partitioning script is neither written nor
  run. And in every run in which the partitioning script is run, the detail query was run
  before it, its output named a disk, and the script written selects that disk.
\<close>

theorem unresolved_disk_number_is_fatal:
  assumes "system h = ''Windows''" and "path_exists h iso_path"
  shows "(open_w h (os_path_join (gettempdir h) ''diskpart_get_disk.txt'') = None
          \<and> subprocess_run h
               [''diskpart'', ''/s'', os_path_join (gettempdir h) ''diskpart_get_disk.txt'']
              = Started result
          \<and> re_search_disk (stdout result) = None
         \<longrightarrow> create_bootable_drive h device_path iso_path persistence_size cb
             = (Inl (PyError RuntimeError
                  (''Could not determine disk number for '' @ device_path)),
                snd (progress cb 0 ''Starting bootable drive creation...'')
                @ snd (progress cb 5 ''Preparing drive...'')
                @ [Call Prepare,
                   WriteFile (os_path_join (gettempdir h) ''diskpart_get_disk.txt'')
                     (''select volume '' @ rstrip [CHR '':'', backslash] device_path @ nl
                      @ ''detail disk'' @ nl @ ''exit'' @ nl),
                   Run [''diskpart'', ''/s'',
                        os_path_join (gettempdir h) ''diskpart_get_disk.txt''],
                   RemoveFile (os_path_join (gettempdir h) ''diskpart_get_disk.txt'')]
                @ snd (progress cb 0
                    (''Error: Could not determine disk number for '' @ device_path))))
       \<and> (Run [''diskpart'', ''/s'', os_path_join (gettempdir h) ''diskpart_script.txt'']
            \<in> set (snd (create_bootable_drive h device_path iso_path persistence_size cb))
          \<longrightarrow> (\<exists>answer disk.
                subprocess_run h
                  [''diskpart'', ''/s'', os_path_join (gettempdir h) ''diskpart_get_disk.txt'']
                  = Started answer
              \<and> re_search_disk (stdout answer) = Some disk
              \<and> snd (prepare_drive h device_path persistence_size cb)
                = [WriteFile (os_path_join (gettempdir h) ''diskpart_get_disk.txt'')
                     (''select volume '' @ rstrip [CHR '':'', backslash] device_path @ nl
                      @ ''detail disk'' @ nl @ ''exit'' @ nl),
                   Run [''diskpart'', ''/s'',
                        os_path_join (gettempdir h) ''diskpart_get_disk.txt''],
                   RemoveFile (os_path_join (gettempdir h) ''diskpart_get_disk.txt''),
                   WriteFile (os_path_join (gettempdir h) ''diskpart_script.txt'')
                     (diskpart_script disk persistence_size)]
                  @ snd (progress cb 10 ''Formatting drive...'')
                  @ [Run [''diskpart'', ''/s'',
                          os_path_join (gettempdir h) ''diskpart_script.txt''],
                     RemoveFile (os_path_join (gettempdir h) ''diskpart_script.txt'')]))"
proof -
  let ?st = "platform_strategy h"
  have prep: "prepare_drive h device_path persistence_size cb
      = prepare_drive_windows h device_path persistence_size cb"
    using assms(1) by (simp add: prepare_drive_def)
  have first: "create_bootable_drive h device_path iso_path persistence_size cb
             = (Inl (PyError RuntimeError
                  (''Could not determine disk number for '' @ device_path)),
                snd (progress cb 0 ''Starting bootable drive creation...'')
                @ snd (progress cb 5 ''Preparing drive...'')
                @ [Call Prepare,
                   WriteFile (os_path_join (gettempdir h) ''diskpart_get_disk.txt'')
                     (''select volume '' @ rstrip [CHR '':'', backslash] device_path @ nl
                      @ ''detail disk'' @ nl @ ''exit'' @ nl),
                   Run [''diskpart'', ''/s'',
                        os_path_join (gettempdir h) ''diskpart_get_disk.txt''],
                   RemoveFile (os_path_join (gettempdir h) ''diskpart_get_disk.txt'')]
                @ snd (progress cb 0
                    (''Error: Could not determine disk number for '' @ device_path)))"
    if o: "open_w h (os_path_join (gettempdir h) ''diskpart_get_disk.txt'') = None"
      and q: "subprocess_run h
               [''diskpart'', ''/s'', os_path_join (gettempdir h) ''diskpart_get_disk.txt'']
              = Started result"
      and m: "re_search_disk (stdout result) = None"
  proof -
    note g = get_windows_disk_number_unresolved [OF o q m, of device_path]
    have pw: "prepare_drive_windows h device_path persistence_size cb
        = (Inl (PyError RuntimeError
                  (''Could not determine disk number for '' @ device_path)),
           snd (get_windows_disk_number h device_path))"
      by (simp add: prepare_drive_windows_def bind_Inl g)
    then have f1: "fst (prepare_drive_impl ?st device_path persistence_size cb)
        = Inl (PyError RuntimeError
                  (''Could not determine disk number for '' @ device_path))"
      by (simp add: platform_strategy_sel prep)
    show ?thesis
      by (simp add: create_bootable_drive_exists [OF assms(2)] run_stages_fail1 [OF f1]
          on_error_Inl except_clause_def platform_strategy_sel prep pw g)
  qed
  have second: "\<exists>answer disk.
                subprocess_run h
                  [''diskpart'', ''/s'', os_path_join (gettempdir h) ''diskpart_get_disk.txt'']
                  = Started answer
              \<and> re_search_disk (stdout answer) = Some disk
              \<and> snd (prepare_drive h device_path persistence_size cb)
                = [WriteFile (os_path_join (gettempdir h) ''diskpart_get_disk.txt'')
                     (''select volume '' @ rstrip [CHR '':'', backslash] device_path @ nl
                      @ ''detail disk'' @ nl @ ''exit'' @ nl),
                   Run [''diskpart'', ''/s'',
                        os_path_join (gettempdir h) ''diskpart_get_disk.txt''],
                   RemoveFile (os_path_join (gettempdir h) ''diskpart_get_disk.txt''),
                   WriteFile (os_path_join (gettempdir h) ''diskpart_script.txt'')
                     (diskpart_script disk persistence_size)]
                  @ snd (progress cb 10 ''Formatting drive...'')
                  @ [Run [''diskpart'', ''/s'',
                          os_path_join (gettempdir h) ''diskpart_script.txt''],
                     RemoveFile (os_path_join (gettempdir h) ''diskpart_script.txt'')]"
    if r: "Run [''diskpart'', ''/s'', os_path_join (gettempdir h) ''diskpart_script.txt'']
            \<in> set (snd (create_bootable_drive h device_path iso_path persistence_size cb))"
  proof -
    have others: "snd (write_iso h device_path iso_path cb)
          = snd (progress cb 40 ''Writing ISO on Windows...'')"
      "snd (setup_persistence h device_path persistence_size cb)
          = snd (progress cb 75 ''Setting up persistence on Windows...'')"
      "snd (install_bootloader h device_path iso_path cb)
          = snd (progress cb 95 ''Installing bootloader on Windows...'')"
      using assms(1)
      by (simp_all add: write_iso_def write_iso_windows_def setup_persistence_def
          setup_persistence_windows_def install_bootloader_def install_bootloader_windows_def)
    from run_event_origin [OF r [unfolded create_bootable_drive_def]]
    have "Run [''diskpart'', ''/s'', os_path_join (gettempdir h) ''diskpart_script.txt'']
            \<in> set (snd (prepare_drive_windows h device_path persistence_size cb))"
      by (simp add: platform_strategy_sel others prep progress_def split: if_splits)
    from prepare_drive_windows_script_run [OF this] show ?thesis
      by (simp add: prep)
  qed
  from first second show ?thesis by blast
qed

theorem unresolved_disk_number_is_fatal_witness:
  "system windows_host = ''Windows''
   \<and> path_exists windows_host ''ubuntu.iso''
   \<and> re_search_disk ''There is no volume selected.'' = None
   \<and> fst (create_bootable_drive windows_host ''D:'' ''ubuntu.iso'' 8 True)
       = Inl (PyError RuntimeError ''Could not determine disk number for D:'')
   \<and> stage_calls (snd (create_bootable_drive windows_host ''D:'' ''ubuntu.iso'' 8 True))
       = [Prepare]
   \<and> filter is_external (snd (create_bootable_drive windows_host ''D:'' ''ubuntu.iso'' 8 True))
       = [WriteFile (os_path_join (gettempdir windows_host) ''diskpart_get_disk.txt'')
            (''select volume D'' @ nl @ ''detail disk'' @ nl @ ''exit'' @ nl),
          Run [''diskpart'', ''/s'',
               os_path_join (gettempdir windows_host) ''diskpart_get_disk.txt''],
          RemoveFile (os_path_join (gettempdir windows_host) ''diskpart_get_disk.txt'')]
   \<and> Run [''diskpart'', ''/s'', os_path_join (gettempdir windows_disk1) ''diskpart_script.txt'']
       \<in> set (snd (create_bootable_drive windows_disk1 ''D:'' ''ubuntu.iso'' 8 True))
   \<and> (\<exists>disk. re_search_disk ''Disk 1 is now the selected disk.'' = Some disk
         \<and> filter is_external (snd (prepare_drive windows_disk1 ''D:'' 8 True))
           = [WriteFile (os_path_join (gettempdir windows_disk1) ''diskpart_get_disk.txt'')
                (''select volume D'' @ nl @ ''detail disk'' @ nl @ ''exit'' @ nl),
              Run [''diskpart'', ''/s'',
                   os_path_join (gettempdir windows_disk1) ''diskpart_get_disk.txt''],
              RemoveFile (os_path_join (gettempdir windows_disk1) ''diskpart_get_disk.txt''),
              WriteFile (os_path_join (gettempdir windows_disk1) ''diskpart_script.txt'')
                (diskpart_script disk 8),
              Run [''diskpart'', ''/s'',
                   os_path_join (gettempdir windows_disk1) ''diskpart_script.txt''],
              RemoveFile (os_path_join (gettempdir windows_disk1) ''diskpart_script.txt'')])"
proof -
  have sys: "system windows_host = ''Windows''"
    and ex: "path_exists windows_host ''ubuntu.iso''"
    and o: "open_w windows_host
              (os_path_join (gettempdir windows_host) ''diskpart_get_disk.txt'') = None"
    and q: "subprocess_run windows_host
              [''diskpart'', ''/s'',
               os_path_join (gettempdir windows_host) ''diskpart_get_disk.txt'']
            = Started (Completed 0 ''There is no volume selected.'' [])"
    by (simp_all add: windows_host_def)
  have m: "re_search_disk (stdout (Completed 0 ''There is no volume selected.'' [])) = None"
    by simp
  have strip: "rstrip [CHR '':'', backslash] ''D:'' = ''D''"
    by (simp add: rstrip_def backslash_def)
  have first: "fst (create_bootable_drive windows_host ''D:'' ''ubuntu.iso'' 8 True)
       = Inl (PyError RuntimeError ''Could not determine disk number for D:'')
   \<and> stage_calls (snd (create_bootable_drive windows_host ''D:'' ''ubuntu.iso'' 8 True))
       = [Prepare]
   \<and> filter is_external (snd (create_bootable_drive windows_host ''D:'' ''ubuntu.iso'' 8 True))
       = [WriteFile (os_path_join (gettempdir windows_host) ''diskpart_get_disk.txt'')
            (''select volume D'' @ nl @ ''detail disk'' @ nl @ ''exit'' @ nl),
          Run [''diskpart'', ''/s'',
               os_path_join (gettempdir windows_host) ''diskpart_get_disk.txt''],
          RemoveFile (os_path_join (gettempdir windows_host) ''diskpart_get_disk.txt'')]"
    using unresolved_disk_number_is_fatal
      [OF sys ex, of "Completed 0 ''There is no volume selected.'' []" "''D:''" 8 True]
      o q m
    by (simp add: progress_def strip)
  have sys1: "system windows_disk1 = ''Windows''"
    and ex1: "path_exists windows_disk1 ''ubuntu.iso''"
    and q1: "subprocess_run windows_disk1 cmd
            = Started (Completed 0 ''Disk 1 is now the selected disk.'' [])" for cmd
    by (simp_all add: windows_disk1_def windows_host_def)
  have o1: "open_w windows_disk1 path = None" for path
    by (simp add: windows_disk1_def windows_host_def)
  have found: "re_search_disk ''Disk 1 is now the selected disk.'' = Some ''1''"
    by (simp add: isdigit_def)
  have g1: "get_windows_disk_number windows_disk1 ''D:''
      = (Inr ''1'',
         [WriteFile (os_path_join (gettempdir windows_disk1) ''diskpart_get_disk.txt'')
            (''select volume D'' @ nl @ ''detail disk'' @ nl @ ''exit'' @ nl),
          Run [''diskpart'', ''/s'',
               os_path_join (gettempdir windows_disk1) ''diskpart_get_disk.txt''],
          RemoveFile (os_path_join (gettempdir windows_disk1) ''diskpart_get_disk.txt'')])"
    by (simp add: get_windows_disk_number_def Let_def finally_remove_def bind_def
        write_file_def run_cmd_def ret_def o1 q1 strip isdigit_def)
  have p1: "Run [''diskpart'', ''/s'',
                  os_path_join (gettempdir windows_disk1) ''diskpart_script.txt'']
       \<in> set (snd (prepare_drive windows_disk1 ''D:'' 8 True))"
    by (simp add: prepare_drive_def sys1 prepare_drive_windows_def bind_Inr g1 Let_def
        finally_remove_def snd_bind fst_bind write_file_def run_cmd_def o1 q1 ret_def
        fst_progress)
  have ran: "Run [''diskpart'', ''/s'',
                  os_path_join (gettempdir windows_disk1) ''diskpart_script.txt'']
       \<in> set (snd (create_bootable_drive windows_disk1 ''D:'' ''ubuntu.iso'' 8 True))"
  proof -
    from run_stages_starts_with_prepare
      [of "platform_strategy windows_disk1" "''D:''" "''ubuntu.iso''" 8 True]
    obtain rest where "snd (run_stages (platform_strategy windows_disk1) ''D:''
        ''ubuntu.iso'' 8 True)
      = snd (progress True 5 ''Preparing drive...'')
        @ Call Prepare # snd (prepare_drive windows_disk1 ''D:'' 8 True) @ rest"
      by (auto simp add: platform_strategy_sel)
    with p1 have "Run [''diskpart'', ''/s'',
                  os_path_join (gettempdir windows_disk1) ''diskpart_script.txt'']
       \<in> set (snd (run_stages (platform_strategy windows_disk1) ''D:''
        ''ubuntu.iso'' 8 True))"
      by simp
    then show ?thesis
      by (cases "fst (run_stages (platform_strategy windows_disk1) ''D:'' ''ubuntu.iso'' 8 True)")
         (simp_all add: create_bootable_drive_exists [OF ex1] on_error_Inl on_error_Inr)
  qed
  from unresolved_disk_number_is_fatal
      [OF sys1 ex1, of "Completed 0 ''There is no volume selected.'' []" "''D:''" 8 True]
    ran
  have second: "\<exists>disk. re_search_disk ''Disk 1 is now the selected disk.'' = Some disk
         \<and> filter is_external (snd (prepare_drive windows_disk1 ''D:'' 8 True))
           = [WriteFile (os_path_join (gettempdir windows_disk1) ''diskpart_get_disk.txt'')
                (''select volume D'' @ nl @ ''detail disk'' @ nl @ ''exit'' @ nl),
              Run [''diskpart'', ''/s'',
                   os_path_join (gettempdir windows_disk1) ''diskpart_get_disk.txt''],
              RemoveFile (os_path_join (gettempdir windows_disk1) ''diskpart_get_disk.txt''),
              WriteFile (os_path_join (gettempdir windows_disk1) ''diskpart_script.txt'')
                (diskpart_script disk 8),
              Run [''diskpart'', ''/s'',
                   os_path_join (gettempdir windows_disk1) ''diskpart_script.txt''],
              RemoveFile (os_path_join (gettempdir windows_disk1) ''diskpart_script.txt'')]"
    using found by (auto simp add: q1 strip progress_def)
  from sys ex m first ran second show ?thesis by simp
qed

subsection \<open>What a run returns and what it raises\<close>

lemma first_failure_raises:
  assumes ex: "exists i" and k: "k < 4"
    and ok: "\<forall>j<k. fst (snd (stage_results st d i p cb ! j)) = Inr ()"
    and err: "fst (snd (stage_results st d i p cb ! k)) = Inl e"
  shows "fst (create_bootable_drive_with st exists d i p cb) = Inl e
       \<and> (\<exists>pre. snd (create_bootable_drive_with st exists d i p cb)
             = pre @ except_clause cb e)"
proof -
  have f: "fst (run_stages st d i p cb) = Inl e"
  proof -
    consider "k = 0" | "k = Suc 0" | "k = Suc (Suc 0)" | "k = Suc (Suc (Suc 0))"
      using less_4_cases [OF k] by blast
    then show ?thesis
    proof cases
      case 1
      with err have "fst (prepare_drive_impl st d p cb) = Inl e"
        by (simp add: stage_results_nth)
      then show ?thesis by (simp add: run_stages_fail1)
    next
      case 2
      with ok err have "fst (prepare_drive_impl st d p cb) = Inr ()"
        and "fst (write_iso_impl st d i cb) = Inl e"
        by (simp_all add: stage_results_nth)
      then show ?thesis by (simp add: run_stages_fail2)
    next
      case 3
      with ok err have "fst (prepare_drive_impl st d p cb) = Inr ()"
        and "fst (write_iso_impl st d i cb) = Inr ()"
        and "fst (setup_persistence_impl st d p cb) = Inl e"
        by (simp_all add: stage_results_nth less_Suc_eq all_conj_distrib)
      then show ?thesis by (simp add: run_stages_fail3)
    next
      case 4
      with ok err have "fst (prepare_drive_impl st d p cb) = Inr ()"
        and "fst (write_iso_impl st d i cb) = Inr ()"
        and "fst (setup_persistence_impl st d p cb) = Inr ()"
        and "fst (install_bootloader_impl st d i cb) = Inl e"
        by (simp_all add: stage_results_nth less_Suc_eq all_conj_distrib)
      then show ?thesis by (simp add: run_stages_fail4)
    qed
  qed
  have "snd (create_bootable_drive_with st exists d i p cb)
      = (snd (progress cb 0 ''Starting bootable drive creation...'')
         @ snd (run_stages st d i p cb)) @ except_clause cb e"
    by (simp add: create_with_exists ex on_error_Inl [OF f])
  then have "\<exists>pre. snd (create_bootable_drive_with st exists d i p cb)
      = pre @ except_clause cb e"
    by blast
  moreover have "fst (create_bootable_drive_with st exists d i p cb) = Inl e"
    by (simp add: create_with_exists ex on_error_Inl [OF f])
  ultimately show ?thesis by blast
qed

lemma returns_True_iff:
  assumes ex: "exists i"
  shows "(fst (create_bootable_drive_with st exists d i p cb) = Inr True)
       = (fst (prepare_drive_impl st d p cb) = Inr ()
          \<and> fst (write_iso_impl st d i cb) = Inr ()
          \<and> fst (setup_persistence_impl st d p cb) = Inr ()
          \<and> fst (install_bootloader_impl st d i cb) = Inr ())"
proof (cases "prepare_drive_impl st d p cb" rule: unit_res_cases)
  case (err e)
  then show ?thesis
    by (simp add: create_with_exists ex run_stages_fail1 [OF err] on_error_Inl)
next
  case o1: ok
  show ?thesis
  proof (cases "write_iso_impl st d i cb" rule: unit_res_cases)
    case (err e)
    then show ?thesis
      by (simp add: create_with_exists ex run_stages_fail2 [OF o1 err] on_error_Inl)
  next
    case o2: ok
    show ?thesis
    proof (cases "setup_persistence_impl st d p cb" rule: unit_res_cases)
      case (err e)
      then show ?thesis
        by (simp add: create_with_exists ex run_stages_fail3 [OF o1 o2 err] on_error_Inl)
    next
      case o3: ok
      show ?thesis
      proof (cases "install_bootloader_impl st d i cb" rule: unit_res_cases)
        case (err e)
        then show ?thesis
          by (simp add: create_with_exists ex run_stages_fail4 [OF o1 o2 o3 err] on_error_Inl)
      next
        case o4: ok
        show ?thesis
          using o1 o2 o3 o4
          by (simp add: create_with_exists ex run_stages_ok [OF o1 o2 o3 o4] on_error_Inr)
      qed
    qed
  qed
qed

lemma result_is_not_False:
  "fst (create_bootable_drive_with st exists d i p cb) \<noteq> Inr False"
proof (cases "exists i")
  case False
  then show ?thesis by (simp add: create_bootable_drive_with_def raise_def)
next
  case True
  show ?thesis
  proof (cases "fst (run_stages st d i p cb)")
    case (Inl e)
    then show ?thesis by (simp add: create_with_exists True on_error_Inl)
  next
    case (Inr b)
    have "b = True"
    proof (rule ccontr)
      assume "b \<noteq> True"
      with Inr have "fst (run_stages st d i p cb) = Inr False" by simp
      then show False
        by (auto simp add: run_stages_def fst_bind fst_progress fst_invoke ret_def
            split: sum.splits)
    qed
    with Inr show ?thesis by (simp add: create_with_exists True on_error_Inr)
  qed
qed

lemma class_run_raises_Exception:
  assumes ex: "path_exists h i"
    and raised: "fst (create_bootable_drive h d i p cb) = Inl e"
  shows "derives_from_Exception (exc_cls e)
       \<and> (\<exists>pre. snd (create_bootable_drive h d i p cb)
             = pre @ snd (progress cb 0 (''Error: '' @ exc_str e)))"
proof (cases "fst (run_stages (platform_strategy h) d i p cb)")
  case (Inr b)
  with raised show ?thesis
    by (simp add: create_bootable_drive_exists [OF ex] on_error_Inr)
next
  case (Inl e')
  with raised have same: "e' = e"
    by (simp add: create_bootable_drive_exists [OF ex] on_error_Inl)
  from platform_run_raises_Exception [OF Inl] same
  have d: "derives_from_Exception (exc_cls e)" by simp
  have "snd (create_bootable_drive h d i p cb)
      = (snd (progress cb 0 ''Starting bootable drive creation...'')
         @ snd (run_stages (platform_strategy h) d i p cb))
        @ snd (progress cb 0 (''Error: '' @ exc_str e))"
    using Inl same d
    by (simp add: create_bootable_drive_exists [OF ex] on_error_Inl except_clause_Exception)
  then have "\<exists>pre. snd (create_bootable_drive h d i p cb)
             = pre @ snd (progress cb 0 (''Error: '' @ exc_str e))"
    by blast
  with d show ?thesis by blast
qed

text \<open>
  Claim C6. With the image present, the run returns \<^verbatim>\<open>True\<close> exactly when the four
  stage implementations succeed. Then the trace is the start event, and for each stage in
  the order Prepare, WriteImage, ConfigurePersistence, InstallBootloader its announcement,
  its entry and the events of its own body, and last the success event: each stage is
  entered once, its body runs where it is entered, and with a callback exactly one event
  at percentage 100 is emitted, the last event of the run.
\<close>

theorem successful_run_enters_each_stage_once:
  assumes "path_exists h iso_path"
  shows "((fst (create_bootable_drive h device_path iso_path persistence_size cb) = Inr True)
          = (fst (prepare_drive h device_path persistence_size cb) = Inr ()
             \<and> fst (write_iso h device_path iso_path cb) = Inr ()
             \<and> fst (setup_persistence h device_path persistence_size cb) = Inr ()
             \<and> fst (install_bootloader h device_path iso_path cb) = Inr ()))
       \<and> (fst (prepare_drive h device_path persistence_size cb) = Inr ()
            \<and> fst (write_iso h device_path iso_path cb) = Inr ()
            \<and> fst (setup_persistence h device_path persistence_size cb) = Inr ()
            \<and> fst (install_bootloader h device_path iso_path cb) = Inr ()
          \<longrightarrow>
            create_bootable_drive h device_path iso_path persistence_size cb
              = (Inr True,
                 snd (progress cb 0 ''Starting bootable drive creation...'')
                 @ snd (progress cb 5 ''Preparing drive...'')
                 @ Call Prepare # snd (prepare_drive h device_path persistence_size cb)
                 @ snd (progress cb 30 ''Writing ISO to drive...'')
                 @ Call WriteImage # snd (write_iso h device_path iso_path cb)
                 @ snd (progress cb 70 ''Setting up persistence...'')
                 @ Call ConfigurePersistence
                   # snd (setup_persistence h device_path persistence_size cb)
                 @ snd (progress cb 90 ''Installing bootloader...'')
                 @ Call InstallBootloader # snd (install_bootloader h device_path iso_path cb)
                 @ snd (progress cb 100 ''Bootable drive created successfully!''))
          \<and> stage_calls
                (snd (create_bootable_drive h device_path iso_path persistence_size cb))
              = [Prepare, WriteImage, ConfigurePersistence, InstallBootloader]
          \<and> (cb \<longrightarrow>
                filter (is_percent 100)
                  (snd (create_bootable_drive h device_path iso_path persistence_size cb))
                  = [Progress 100 ''Bootable drive created successfully!'']
              \<and> last (snd (create_bootable_drive h device_path iso_path persistence_size cb))
                  = Progress 100 ''Bootable drive created successfully!''))"
proof -
  let ?st = "platform_strategy h"
  let ?R = "create_bootable_drive h device_path iso_path persistence_size cb"
  have iff: "(fst ?R = Inr True)
          = (fst (prepare_drive h device_path persistence_size cb) = Inr ()
             \<and> fst (write_iso h device_path iso_path cb) = Inr ()
             \<and> fst (setup_persistence h device_path persistence_size cb) = Inr ()
             \<and> fst (install_bootloader h device_path iso_path cb) = Inr ())"
    using returns_True_iff [of "path_exists h" iso_path ?st device_path persistence_size cb]
      assms
    by (simp add: create_bootable_drive_def platform_strategy_sel)
  have all: "?R = (Inr True,
                 snd (progress cb 0 ''Starting bootable drive creation...'')
                 @ snd (progress cb 5 ''Preparing drive...'')
                 @ Call Prepare # snd (prepare_drive h device_path persistence_size cb)
                 @ snd (progress cb 30 ''Writing ISO to drive...'')
                 @ Call WriteImage # snd (write_iso h device_path iso_path cb)
                 @ snd (progress cb 70 ''Setting up persistence...'')
                 @ Call ConfigurePersistence
                   # snd (setup_persistence h device_path persistence_size cb)
                 @ snd (progress cb 90 ''Installing bootloader...'')
                 @ Call InstallBootloader # snd (install_bootloader h device_path iso_path cb)
                 @ snd (progress cb 100 ''Bootable drive created successfully!''))
          \<and> stage_calls (snd ?R)
              = [Prepare, WriteImage, ConfigurePersistence, InstallBootloader]
          \<and> (cb \<longrightarrow>
                filter (is_percent 100) (snd ?R)
                  = [Progress 100 ''Bootable drive created successfully!'']
              \<and> last (snd ?R) = Progress 100 ''Bootable drive created successfully!'')"
    if s1: "fst (prepare_drive h device_path persistence_size cb) = Inr ()"
      and s2: "fst (write_iso h device_path iso_path cb) = Inr ()"
      and s3: "fst (setup_persistence h device_path persistence_size cb) = Inr ()"
      and s4: "fst (install_bootloader h device_path iso_path cb) = Inr ()"
  proof -
    have o1: "fst (prepare_drive_impl ?st device_path persistence_size cb) = Inr ()"
      and o2: "fst (write_iso_impl ?st device_path iso_path cb) = Inr ()"
      and o3: "fst (setup_persistence_impl ?st device_path persistence_size cb) = Inr ()"
      and o4: "fst (install_bootloader_impl ?st device_path iso_path cb) = Inr ()"
      using s1 s2 s3 s4 by (simp_all add: platform_strategy_sel)
    note run = run_stages_ok [OF o1 o2 o3 o4]
    have tr: "?R = (Inr True,
                 snd (progress cb 0 ''Starting bootable drive creation...'')
                 @ snd (progress cb 5 ''Preparing drive...'')
                 @ Call Prepare # snd (prepare_drive h device_path persistence_size cb)
                 @ snd (progress cb 30 ''Writing ISO to drive...'')
                 @ Call WriteImage # snd (write_iso h device_path iso_path cb)
                 @ snd (progress cb 70 ''Setting up persistence...'')
                 @ Call ConfigurePersistence
                   # snd (setup_persistence h device_path persistence_size cb)
                 @ snd (progress cb 90 ''Installing bootloader...'')
                 @ Call InstallBootloader # snd (install_bootloader h device_path iso_path cb)
                 @ snd (progress cb 100 ''Bootable drive created successfully!''))"
      by (simp add: create_bootable_drive_exists [OF assms] run on_error_Inr
          platform_strategy_sel)
    have calls: "stage_calls (snd ?R)
           = [Prepare, WriteImage, ConfigurePersistence, InstallBootloader]"
      unfolding tr snd_conv
      by (simp add: stage_calls_append stage_calls_progress prepare_drive_quiet
          write_iso_quiet setup_persistence_quiet install_bootloader_quiet)
    have hundred: "filter (is_percent 100) (snd ?R)
              = [Progress 100 ''Bootable drive created successfully!'']"
      and final: "last (snd ?R) = Progress 100 ''Bootable drive created successfully!''"
      if cb
      unfolding tr snd_conv
      using that
      by (simp_all add: platform_no_100 progress_def)
    from tr calls hundred final show ?thesis by blast
  qed
  from iff all show ?thesis by blast
qed

theorem successful_run_enters_each_stage_once_witness:
  "path_exists linux_host ''ubuntu.iso''
   \<and> create_bootable_drive linux_host ''/dev/sdb'' ''ubuntu.iso'' 8 True
     = (Inr True,
        [Progress 0 ''Starting bootable drive creation...'',
         Progress 5 ''Preparing drive...'',
         Call Prepare,
         Run [''lsblk'', ''-no'', ''NAME'', ''/dev/sdb''],
         Run [''umount'', ''/dev/sdb1''],
         Progress 15 ''Formatting drive on Linux...'',
         Progress 30 ''Writing ISO to drive...'',
         Call WriteImage,
         Popen (dd_command ''/dev/sdb'' ''ubuntu.iso''),
         Progress 50 ''Writing ISO...'',
         Progress 70 ''ISO written successfully'',
         Progress 70 ''Setting up persistence...'',
         Call ConfigurePersistence,
         Progress 75 ''Setting up persistence on Linux...'',
         Progress 90 ''Installing bootloader...'',
         Call InstallBootloader,
         Progress 95 ''Installing bootloader on Linux...'',
         Progress 100 ''Bootable drive created successfully!''])
   \<and> stage_calls (snd (create_bootable_drive linux_host ''/dev/sdb'' ''ubuntu.iso'' 8 True))
       = [Prepare, WriteImage, ConfigurePersistence, InstallBootloader]
   \<and> filter (is_percent 100)
       (snd (create_bootable_drive linux_host ''/dev/sdb'' ''ubuntu.iso'' 8 True))
       = [Progress 100 ''Bootable drive created successfully!'']"
proof -
  have ex: "path_exists linux_host ''ubuntu.iso''"
    and sys: "system linux_host = ''Linux''"
    by (simp_all add: linux_host_def)
  have s3: "setup_persistence linux_host ''/dev/sdb'' 8 True
      = (Inr (), [Progress 75 ''Setting up persistence on Linux...''])"
    by (simp add: setup_persistence_def setup_persistence_linux_def sys progress_def)
  have s4: "install_bootloader linux_host ''/dev/sdb'' ''ubuntu.iso'' True
      = (Inr (), [Progress 95 ''Installing bootloader on Linux...''])"
    by (simp add: install_bootloader_def install_bootloader_linux_def sys progress_def)
  show ?thesis
    using successful_run_enters_each_stage_once
      [OF ex, of "''/dev/sdb''" 8 True]
      ex
    by (simp add: linux_host_prepare linux_host_write s3 s4 progress_def)
qed




text \<open>
  Claim C10. \<^verbatim>\<open>create_bootable_drive\<close> never returns \<^verbatim>\<open>False\<close>. With the image
  present it returns \<^verbatim>\<open>True\<close> exactly when the four stage implementations succeed; when
  a stage is the first to fail, with the exception \<open>e\<close>, the run raises \<open>e\<close>, and the last
  thing it did was the handler's call of the callback with the error text of \<open>e\<close>, for
  every \<open>e\<close> derived from \<^verbatim>\<open>Exception\<close> (no event without a callback). With the
  class's own stage implementations every exception raised after the validation is
  derived from \<^verbatim>\<open>Exception\<close> and is preceded by that event.
\<close>

theorem create_bootable_drive_never_returns_False:
  "fst (create_bootable_drive_with st exists device_path iso_path persistence_size cb)
     \<noteq> Inr False
   \<and> (exists iso_path \<longrightarrow>
        (fst (create_bootable_drive_with st exists device_path iso_path persistence_size cb)
           = Inr True)
        = (fst (prepare_drive_impl st device_path persistence_size cb) = Inr ()
           \<and> fst (write_iso_impl st device_path iso_path cb) = Inr ()
           \<and> fst (setup_persistence_impl st device_path persistence_size cb) = Inr ()
           \<and> fst (install_bootloader_impl st device_path iso_path cb) = Inr ()))
   \<and> (exists iso_path \<and> k < 4
        \<and> (\<forall>j<k. fst (snd (stage_results st device_path iso_path persistence_size cb ! j))
                   = Inr ())
        \<and> fst (snd (stage_results st device_path iso_path persistence_size cb ! k)) = Inl e
      \<longrightarrow>
        fst (create_bootable_drive_with st exists device_path iso_path persistence_size cb)
          = Inl e
        \<and> (\<exists>pre. snd (create_bootable_drive_with st exists device_path iso_path
                         persistence_size cb)
                   = pre @ (if derives_from_Exception (exc_cls e)
                            then snd (progress cb 0 (''Error: '' @ exc_str e))
                            else [])))
   \<and> (path_exists h iso_path
        \<and> fst (create_bootable_drive h device_path iso_path persistence_size cb) = Inl e'
      \<longrightarrow>
        derives_from_Exception (exc_cls e')
        \<and> (\<exists>pre. snd (create_bootable_drive h device_path iso_path persistence_size cb)
                   = pre @ snd (progress cb 0 (''Error: '' @ exc_str e'))))"
proof -
  note first = result_is_not_False [of st exists device_path iso_path persistence_size cb]
  have second: "(fst (create_bootable_drive_with st exists device_path iso_path
                        persistence_size cb) = Inr True)
        = (fst (prepare_drive_impl st device_path persistence_size cb) = Inr ()
           \<and> fst (write_iso_impl st device_path iso_path cb) = Inr ()
           \<and> fst (setup_persistence_impl st device_path persistence_size cb) = Inr ()
           \<and> fst (install_bootloader_impl st device_path iso_path cb) = Inr ())"
    if "exists iso_path"
    using that by (rule returns_True_iff)
  have third: "fst (create_bootable_drive_with st exists device_path iso_path
                      persistence_size cb) = Inl e
        \<and> (\<exists>pre. snd (create_bootable_drive_with st exists device_path iso_path
                         persistence_size cb)
                   = pre @ (if derives_from_Exception (exc_cls e)
                            then snd (progress cb 0 (''Error: '' @ exc_str e))
                            else []))"
    if "exists iso_path" and "k < 4"
      and "\<forall>j<k. fst (snd (stage_results st device_path iso_path persistence_size cb ! j))
                   = Inr ()"
      and "fst (snd (stage_results st device_path iso_path persistence_size cb ! k)) = Inl e"
    using that first_failure_raises
      [where exists = exists and i = iso_path and k = k and st = st and d = device_path
         and p = persistence_size and cb = cb and e = e]
    by (simp add: except_clause_def)
  have fourth: "derives_from_Exception (exc_cls e')
        \<and> (\<exists>pre. snd (create_bootable_drive h device_path iso_path persistence_size cb)
                   = pre @ snd (progress cb 0 (''Error: '' @ exc_str e')))"
    if "path_exists h iso_path"
      and "fst (create_bootable_drive h device_path iso_path persistence_size cb) = Inl e'"
    using that by (rule class_run_raises_Exception)
  from first second third fourth show ?thesis by blast
qed

theorem create_bootable_drive_never_returns_False_witness:
  "fst (create_bootable_drive_with failing_stage3 (\<lambda>path. True)
          ''/dev/sdX'' ''ubuntu.iso'' 8 True)
     = Inl (PyError (OtherError ''PersistenceSetupError'') ''mkfs.ext4: exit status 1'')
   \<and> (\<exists>pre. snd (create_bootable_drive_with failing_stage3 (\<lambda>path. True)
          ''/dev/sdX'' ''ubuntu.iso'' 8 True)
        = pre @ [Progress 0 ''Error: mkfs.ext4: exit status 1''])
   \<and> fst (create_bootable_drive linux_no_pkexec ''/dev/sdb'' ''ubuntu.iso'' 8 True)
     = Inl (PyError EnvironmentError
          ''pkexec is not installed. Please install it to continue.'')
   \<and> (\<exists>pre. snd (create_bootable_drive linux_no_pkexec ''/dev/sdb'' ''ubuntu.iso'' 8 True)
        = pre @ [Progress 0
                   ''Error: pkexec is not installed. Please install it to continue.''])
   \<and> fst (create_bootable_drive linux_host ''/dev/sdb'' ''ubuntu.iso'' 8 True) = Inr True"
proof -
  have ex: "(\<lambda>path::string. True) ''ubuntu.iso''" by simp
  let ?e = "PyError (OtherError ''PersistenceSetupError'') ''mkfs.ext4: exit status 1''"
  let ?t = "PyError EnvironmentError
          ''pkexec is not installed. Please install it to continue.''"
  have k: "(2::nat) < 4" by simp
  have ok: "\<forall>j<2. fst (snd (stage_results failing_stage3 ''/dev/sdX'' ''ubuntu.iso'' 8 True ! j))
              = Inr ()"
    by (simp add: stage_results_def failing_stage3_def progress_def numeral_2_eq_2
        less_Suc_eq all_conj_distrib)
  have err: "fst (snd (stage_results failing_stage3 ''/dev/sdX'' ''ubuntu.iso'' 8 True ! 2))
              = Inl ?e"
    by (simp add: stage_results_def failing_stage3_def raise_def numeral_2_eq_2)
  have exl: "path_exists linux_no_pkexec ''ubuntu.iso''"
    by (simp add: linux_no_pkexec_def linux_host_def)
  have raised: "fst (create_bootable_drive linux_no_pkexec ''/dev/sdb'' ''ubuntu.iso'' 8 True)
     = Inl ?t"
    by (simp add: linux_no_pkexec_run)
  have exh: "path_exists linux_host ''ubuntu.iso''"
    by (simp add: linux_host_def)
  have sys: "system linux_host = ''Linux''"
    by (simp add: linux_host_def)
  have stages: "fst (prepare_drive linux_host ''/dev/sdb'' 8 True) = Inr ()
      \<and> fst (write_iso linux_host ''/dev/sdb'' ''ubuntu.iso'' True) = Inr ()
      \<and> fst (setup_persistence linux_host ''/dev/sdb'' 8 True) = Inr ()
      \<and> fst (install_bootloader linux_host ''/dev/sdb'' ''ubuntu.iso'' True) = Inr ()"
    by (simp add: linux_host_prepare linux_host_write setup_persistence_def
        setup_persistence_linux_def install_bootloader_def install_bootloader_linux_def sys
        progress_def)
  note a = create_bootable_drive_never_returns_False
      [where st = failing_stage3 and exists = "\<lambda>path. True"
         and device_path = "''/dev/sdX''" and iso_path = "''ubuntu.iso''"
         and persistence_size = 8 and cb = True and k = 2 and e = ?e
         and h = linux_no_pkexec and e' = ?t]
  note b = create_bootable_drive_never_returns_False
      [where st = failing_stage3 and exists = "\<lambda>path. True"
         and device_path = "''/dev/sdb''" and iso_path = "''ubuntu.iso''"
         and persistence_size = 8 and cb = True and k = 2 and e = ?e
         and h = linux_no_pkexec and e' = ?t]
  note c = create_bootable_drive_never_returns_False
      [where st = "platform_strategy linux_host" and exists = "path_exists linux_host"
         and device_path = "''/dev/sdb''" and iso_path = "''ubuntu.iso''"
         and persistence_size = 8 and cb = True and k = 2 and e = ?e
         and h = linux_host and e' = ?t]
  from a ex k ok err
  have first: "fst (create_bootable_drive_with failing_stage3 (\<lambda>path. True)
          ''/dev/sdX'' ''ubuntu.iso'' 8 True) = Inl ?e
     \<and> (\<exists>pre. snd (create_bootable_drive_with failing_stage3 (\<lambda>path. True)
          ''/dev/sdX'' ''ubuntu.iso'' 8 True)
        = pre @ [Progress 0 ''Error: mkfs.ext4: exit status 1''])"
    by (simp add: progress_def)
  from b exl raised
  have second: "\<exists>pre. snd (create_bootable_drive linux_no_pkexec ''/dev/sdb'' ''ubuntu.iso''
          8 True)
        = pre @ [Progress 0
                   ''Error: pkexec is not installed. Please install it to continue.'']"
    by (simp add: progress_def)
  from c exh stages
  have third: "fst (create_bootable_drive linux_host ''/dev/sdb'' ''ubuntu.iso'' 8 True)
      = Inr True"
    by (simp add: create_bootable_drive_def platform_strategy_sel)
  from first raised second third show ?thesis by blast
qed

subsection \<open>The checksum\<close>

lemma fed_read_blocks: "fed (read_blocks hs rest) = fed hs @ rest"
proof (induction hs rest rule: read_blocks.induct)
  case (1 hs rest)
  show ?case
  proof (cases "take 4096 rest = []")
    case True
    then have "rest = []" by simp
    then show ?thesis by (simp add: read_blocks.simps [of hs "[]"])
  next
    case False
    have "fed (read_blocks hs rest)
        = fed (read_blocks (update hs (take 4096 rest)) (drop 4096 rest))"
      using False by (simp add: read_blocks.simps [of hs rest] Let_def)
    also have "\<dots> = fed (update hs (take 4096 rest)) @ drop 4096 rest"
      using False by (rule "1.IH" [OF refl])
    also have "\<dots> = fed hs @ rest"
      by (simp add: update_def)
    finally show ?thesis .
  qed
qed

lemma hello_block_words:
  "be_words (sha256_pad (bytes_of ''Hello, world!''))
     = [1214606444, 1865162871, 1869769828, 562036736, 0, 0, 0, 0, 0, 0, 0, 0, 0, 0, 0, 104]"
  by code_simp

lemma hello_schedule:
  "schedule 48
     [1214606444, 1865162871, 1869769828, 562036736, 0, 0, 0, 0, 0, 0, 0, 0, 0, 0, 0, 104]
   = [1214606444, 1865162871, 1869769828, 562036736, 0, 0, 0, 0, 0, 0, 0, 0, 0,
      0, 0, 104, 864777201, 3448689407, 1265619500, 3566435522, 323057454,
      3519812612, 2507545597, 3158439371, 2620586130, 266570753, 4161768931,
      3401897500, 155161833, 2272618764, 3309822005, 4003675011, 2721136766,
      1704508007, 3730353563, 733901527, 4103803361, 4257930626, 1821215708,
      475801635, 1463697678, 3134735599, 566972800, 540300318, 497434273,
      532074632, 2400298991, 2974957613, 823490254, 4139030904, 1272255998,
      1108714331, 3922095543, 3396502240, 1760771724, 3835339060, 529905360,
      3679328324, 4275587158, 2805904349, 3173156995, 3211701342, 1718528907,
      476468063]"
  by code_simp

lemma hello_rounds:
  "rounds (zip sha256_K
     [1214606444, 1865162871, 1869769828, 562036736, 0, 0, 0, 0, 0, 0, 0, 0, 0,
      0, 0, 104, 864777201, 3448689407, 1265619500, 3566435522, 323057454,
      3519812612, 2507545597, 3158439371, 2620586130, 266570753, 4161768931,
      3401897500, 155161833, 2272618764, 3309822005, 4003675011, 2721136766,
      1704508007, 3730353563, 733901527, 4103803361, 4257930626, 1821215708,
      475801635, 1463697678, 3134735599, 566972800, 540300318, 497434273,
      532074632, 2400298991, 2974957613, 823490254, 4139030904, 1272255998,
      1108714331, 3922095543, 3396502240, 1760771724, 3835339060, 529905360,
      3679328324, 4275587158, 2805904349, 3173156995, 3211701342, 1718528907,
      476468063]) sha256_H0
   = [3344266612, 3144206911, 4280011924, 2834959402, 270323023, 3703767208,
      1014545180, 4239663290]"
  by code_simp

lemma hello_blocks:
  "blocks64 (sha256_pad (bytes_of ''Hello, world!''))
     = [sha256_pad (bytes_of ''Hello, world!'')]"
proof -
  have len: "length (sha256_pad (bytes_of ''Hello, world!'')) = 64"
    by (simp add: sha256_pad_def bytes_of_def length_bytes_def)
  show ?thesis
    by (subst blocks64.simps, simp add: len) (subst blocks64.simps, simp add: len)
qed

lemma hello_compress:
  "compress sha256_H0 (sha256_pad (bytes_of ''Hello, world!''))
     = [828333019, 1993373892, 998948870, 1313472868, 1630216142, 2009622836,
        1543279815, 1486155219]"
  unfolding compress_def hello_block_words hello_schedule hello_rounds
  by (simp add: sha256_H0_def)

lemma hello_digest:
  "hex_of_bytes (sha256 (bytes_of ''Hello, world!''))
     = ''315f5bdb76d078c43b8ac0064e4a0164612b1fce77c869345bfc94c75894edd3''"
proof -
  have "sha256 (bytes_of ''Hello, world!'')
      = concat (map word_bytes
          [828333019, 1993373892, 998948870, 1313472868, 1630216142, 2009622836,
           1543279815, 1486155219])"
    by (simp add: sha256_def hello_blocks hello_compress)
  also have "\<dots> = [49, 95, 91, 219, 118, 208, 120, 196, 59, 138, 192, 6, 78, 74, 1, 100, 97,
      43, 31, 206, 119, 200, 105, 52, 91, 252, 148, 199, 88, 148, 237, 211]"
    by code_simp
  finally have "sha256 (bytes_of ''Hello, world!'')
      = [49, 95, 91, 219, 118, 208, 120, 196, 59, 138, 192, 6, 78, 74, 1, 100, 97,
      43, 31, 206, 119, 200, 105, 52, 91, 252, 148, 199, 88, 148, 237, 211]" .
  moreover have "hex_of_bytes
     [49, 95, 91, 219, 118, 208, 120, 196, 59, 138, 192, 6, 78, 74, 1, 100, 97,
      43, 31, 206, 119, 200, 105, 52, 91, 252, 148, 199, 88, 148, 237, 211]
     = ''315f5bdb76d078c43b8ac0064e4a0164612b1fce77c869345bfc94c75894edd3''"
    by code_simp
  ultimately show ?thesis by simp
qed

text \<open>
  Claim C9. For every file that exists and can be read, \<^verbatim>\<open>calculate_checksum\<close> returns
  the SHA-256 digest of all the bytes of the file, in lower-case hexadecimal: reading in
  blocks of 4096 bytes feeds the hash object the whole content, in order. For the fixture
  file holding \<^verbatim>\<open>Hello, world!\<close> the result is the reference digest of the source's test.
\<close>

theorem calculate_checksum_is_sha256:
  "(fs file_path = Some (Readable content) \<longrightarrow>
      calculate_checksum fs file_path = Inr (hex_of_bytes (sha256 content)))
   \<and> calculate_checksum test_files ''test_file.txt''
       = Inr ''315f5bdb76d078c43b8ac0064e4a0164612b1fce77c869345bfc94c75894edd3''"
proof -
  have general: "calculate_checksum fs' path = Inr (hex_of_bytes (sha256 bytes))"
    if "fs' path = Some (Readable bytes)" for fs' path bytes
    using that
    by (simp add: calculate_checksum_def hexdigest_def fed_read_blocks hashlib_sha256_def)
  have "test_files ''test_file.txt'' = Some (Readable (bytes_of ''Hello, world!''))"
    by (simp add: test_files_def)
  with general [of test_files "''test_file.txt''" "bytes_of ''Hello, world!''"]
  have "calculate_checksum test_files ''test_file.txt''
       = Inr ''315f5bdb76d078c43b8ac0064e4a0164612b1fce77c869345bfc94c75894edd3''"
    by (simp add: hello_digest)
  with general show ?thesis by blast
qed

theorem calculate_checksum_is_sha256_witness:
  "test_files ''test_file.txt'' = Some (Readable (bytes_of ''Hello, world!''))
   \<and> calculate_checksum test_files ''test_file.txt''
       = Inr (hex_of_bytes (sha256 (bytes_of ''Hello, world!'')))
   \<and> calculate_checksum test_files ''test_file.txt''
       = Inr ''315f5bdb76d078c43b8ac0064e4a0164612b1fce77c869345bfc94c75894edd3''"
proof -
  have present: "test_files ''test_file.txt'' = Some (Readable (bytes_of ''Hello, world!''))"
    by (simp add: test_files_def)
  show ?thesis
    using present
      calculate_checksum_is_sha256
        [of test_files "''test_file.txt''" "bytes_of ''Hello, world!''"]
    by blast
qed


end
